theory Spec2Isabelle
  imports Main
begin

section \<open>The C# operations plugin: data model\<close>

text \<open>
  A shallow embedding of the class \<^verbatim>\<open>CSharpOperationsVisitor\<close> and of the plugin entry
  \<^verbatim>\<open>plugin\<close>. Strings are \<^typ>\<open>string\<close>; a JavaScript exception is a value of
  \<^verbatim>\<open>error\<close> on the left of a sum; \<^verbatim>\<open>undefined\<close> is \<^const>\<open>None\<close>.
\<close>

subsection \<open>GraphQL syntax trees\<close>

text \<open>A type reference: \<^verbatim>\<open>NamedType\<close>, \<^verbatim>\<open>ListType\<close>, \<^verbatim>\<open>NonNullType\<close>.\<close>

datatype type_node = NamedType string | ListType type_node | NonNullType type_node

text \<open>
  A selection. A field carries its name and its optional selection set; a fragment
  spread the name of the fragment; an inline fragment its selections.
\<close>

datatype selection =
    Field string "selection list option"
  | FragmentSpread string
  | InlineFragment "selection list"

record field_definition =
  fd_name :: string
  fd_type :: type_node

record object_type_definition =
  otd_name :: string
  otd_fields :: "field_definition list"

record variable_definition =
  vd_name :: string
  vd_type :: type_node

record operation_definition =
  op_name :: "string option"
  op_operation :: string
  op_variableDefinitions :: "variable_definition list option"
  op_selections :: "selection list"

record fragment_definition =
  fr_name :: string
  fr_typeCondition :: string
  fr_selections :: "selection list"

record loaded_fragment =
  lf_name :: string
  lf_onType :: string
  lf_node :: fragment_definition
  lf_isExternal :: bool

record input_object_type_definition =
  iotd_name :: string
  iotd_fields :: "field_definition list"

record enum_type_definition =
  etd_name :: string
  etd_values :: "string list"

text \<open>The definitions of a document, by \<^verbatim>\<open>kind\<close>.\<close>

datatype definition_node =
    OperationDefinitionNode operation_definition
  | FragmentDefinitionNode fragment_definition
  | ObjectTypeDefinitionNode object_type_definition
  | InputObjectTypeDefinitionNode input_object_type_definition
  | EnumTypeDefinitionNode enum_type_definition
  | OtherDefinitionNode

subsection \<open>The schema, the configuration and the visitor\<close>

datatype type_kind = ScalarType | InputObjectType | EnumType | ObjectType | InterfaceType | UnionType

record schema_type =
  st_name :: string
  st_kind :: type_kind

record http_client_config =
  prodEndpoint :: string
  devEndpoint :: string
  useDevIf :: string

datatype document_mode =
  GraphQLTag | DocumentNode | DocumentNodeImportFragments | External | StringMode

text \<open>
  The raw configuration as the caller gives it (\<^verbatim>\<open>CSharpOperationsRawPluginConfig\<close>):
  every option may be absent.
\<close>

record raw_config =
  raw_namespaceName :: "string option"
  raw_operationsClassName :: "string option"
  raw_typesafeOperation :: "bool option"
  raw_httpClientConfig :: "http_client_config option"
  raw_documentMode :: "document_mode option"
  raw_externalFragments :: "loaded_fragment list option"

text \<open>The parsed configuration (\<^verbatim>\<open>CSharpOperationsPluginConfig\<close>).\<close>

record plugin_config =
  namespaceName :: string
  operationsClassName :: string
  typesafeOperation :: bool
  httpClientConfig :: "http_client_config option"
  documentMode :: document_mode

text \<open>
  The visitor's fields: \<^verbatim>\<open>_schema.getType\<close> as a map, \<^verbatim>\<open>_schemaAST.definitions\<close>,
  \<^verbatim>\<open>_fragments\<close>, \<^verbatim>\<open>scalars\<close>, \<^verbatim>\<open>config\<close> and \<^verbatim>\<open>_collectedOperations\<close>.
\<close>

record visitor =
  getType :: "string \<rightharpoonup> schema_type"
  schemaAST :: "definition_node list"
  fragments :: "loaded_fragment list"
  scalars :: "string \<rightharpoonup> string"
  config :: plugin_config
  collectedOperations :: "operation_definition list"

subsection \<open>Errors\<close>

text \<open>
  \<^verbatim>\<open>Error msg\<close> is \<^verbatim>\<open>throw new Error(msg)\<close>; \<^verbatim>\<open>TypeError what\<close> is the engine's
  TypeError at a property read of \<^verbatim>\<open>undefined\<close>, \<^verbatim>\<open>what\<close> naming the expression read.
\<close>

datatype error = Error string | TypeError string

subsection \<open>Helpers imported from other packages\<close>

text \<open>
  The text utilities the visitor imports (change-case-all, c-sharp-common,
  visitor-plugin-common) are parameters of the model: \<^verbatim>\<open>pascalCase\<close>,
  \<^verbatim>\<open>convertSafeName\<close>, the visitor's inherited \<^verbatim>\<open>convertName\<close> (applied to the name
  of a node, absent for an anonymous operation), \<^verbatim>\<open>indentMultiline\<close> with its count,
  \<^verbatim>\<open>isValueType\<close>, the \<^verbatim>\<open>string\<close> getter of \<^verbatim>\<open>CSharpDeclarationBlock\<close>, and the
  inherited \<^verbatim>\<open>_gql\<close> document printer.
\<close>

record declaration_block =
  db_access :: "string option"
  db_kind :: string
  db_name :: "string option"
  db_implements :: "string list"
  db_block :: string

record helpers =
  pascalCase :: "string \<Rightarrow> string"
  convertSafeName :: "string \<Rightarrow> string"
  convertName :: "string option \<Rightarrow> string"
  indentMultiline :: "string \<Rightarrow> nat \<Rightarrow> string"
  isValueType :: "string \<Rightarrow> bool"
  blockString :: "declaration_block \<Rightarrow> string"
  gql :: "operation_definition \<Rightarrow> string"

section \<open>Type resolver\<close>

subsection \<open>Value type descriptors\<close>

datatype list_type_field = ListTypeField (lt_required: bool) (lt_type: "list_type_field option")

record base_type_field =
  bt_type :: string
  bt_required :: bool
  bt_valueType :: bool

record csharp_field_type =
  baseType :: base_type_field
  listType :: "list_type_field option"

text \<open>
  Modelled from the spec: \<^verbatim>\<open>getBaseTypeNode\<close> (visitor-plugin-common) is not among the
  sources. It strips every list and non-null wrapper and returns the name of the base
  type.
\<close>

fun getBaseTypeNode :: "type_node \<Rightarrow> string" where
  "getBaseTypeNode (NamedType n) = n"
| "getBaseTypeNode (ListType t) = getBaseTypeNode t"
| "getBaseTypeNode (NonNullType t) = getBaseTypeNode t"

text \<open>
  Modelled from the spec: \<^verbatim>\<open>getListTypeField\<close> (c-sharp-common) is not among the
  sources. One \<^verbatim>\<open>ListTypeField\<close> per list wrapper, outermost first, each required
  exactly when a non-null wrapper stands directly around that list; no descriptor when
  the reference is not a list.
\<close>

fun getListTypeField :: "type_node \<Rightarrow> list_type_field option" where
  "getListTypeField (ListType t) = Some (ListTypeField False (getListTypeField t))"
| "getListTypeField (NonNullType (ListType t)) = Some (ListTypeField True (getListTypeField t))"
| "getListTypeField (NonNullType (NamedType n)) = None"
| "getListTypeField (NonNullType (NonNullType t)) = None"
| "getListTypeField (NamedType n) = None"

text \<open>
  Modelled from the spec: \<^verbatim>\<open>getListInnerTypeNode\<close> (c-sharp-common) is not among the
  sources. It descends through the list wrappers (each with its own non-null wrapper)
  to the innermost layer, whose non-null wrapper, when there is one, is kept.
\<close>

fun getListInnerTypeNode :: "type_node \<Rightarrow> type_node" where
  "getListInnerTypeNode (ListType t) = getListInnerTypeNode t"
| "getListInnerTypeNode (NonNullType (ListType t)) = getListInnerTypeNode t"
| "getListInnerTypeNode (NonNullType (NamedType n)) = NonNullType (NamedType n)"
| "getListInnerTypeNode (NonNullType (NonNullType t)) = NonNullType (NonNullType t)"
| "getListInnerTypeNode (NamedType n) = NamedType n"

text \<open>\<^verbatim>\<open>node.kind === Kind.NON_NULL_TYPE\<close>\<close>

fun isNonNullType :: "type_node \<Rightarrow> bool" where
  "isNonNullType (NonNullType t) = True"
| "isNonNullType (ListType t) = False"
| "isNonNullType (NamedType n) = False"

text \<open>
  Modelled from the spec: the getter \<^verbatim>\<open>innerTypeName\<close> of \<^verbatim>\<open>CSharpFieldType\<close>
  (c-sharp-common) is not among the sources. The base type's name, marked nullable
  (\<^verbatim>\<open>?\<close>) when it is an optional value type.
\<close>

definition innerTypeName :: "csharp_field_type \<Rightarrow> string" where
  "innerTypeName ft =
     bt_type (baseType ft) @
     (if bt_valueType (baseType ft) \<and> \<not> bt_required (baseType ft) then ''?'' else '''')"

text \<open>
  Modelled from the spec: \<^verbatim>\<open>wrapFieldType\<close> (c-sharp-common) is not among the sources.
  One \<^verbatim>\<open>List<...>\<close> around the inner type name per list wrapper.
\<close>

fun wrapFieldType :: "csharp_field_type \<Rightarrow> list_type_field option \<Rightarrow> string \<Rightarrow> string" where
  "wrapFieldType ft None lst = innerTypeName ft"
| "wrapFieldType ft (Some (ListTypeField r inner)) lst =
     lst @ ''<'' @ wrapFieldType ft inner lst @ ''>''"

subsection \<open>resolveFieldType\<close>

text \<open>
  \<^verbatim>\<open>this.scalars[name]\<close> read for its truthiness: an absent mapping and a mapping to
  the empty string both count as no mapping.
\<close>

definition scalarMapping :: "visitor \<Rightarrow> string \<Rightarrow> string option" where
  "scalarMapping v n = (case scalars v n of None \<Rightarrow> None | Some m \<Rightarrow> if m = [] then None else Some m)"

text \<open>
  The base type chosen by the chain of \<^verbatim>\<open>isScalarType\<close> / \<^verbatim>\<open>isInputObjectType\<close> /
  \<^verbatim>\<open>isEnumType\<close> tests. A name the schema does not know makes every test false, and
  the last branch reads \<^verbatim>\<open>schemaType.name\<close> of \<^verbatim>\<open>undefined\<close>.
\<close>

definition resolveBaseType ::
  "helpers \<Rightarrow> visitor \<Rightarrow> schema_type option \<Rightarrow> bool \<Rightarrow> error + base_type_field" where
  "resolveBaseType h v schemaType required =
     (case schemaType of
        None \<Rightarrow> Inl (TypeError ''schemaType.name'')
      | Some st \<Rightarrow>
          if st_kind st = ScalarType then
            (case scalarMapping v (st_name st) of
               Some bt \<Rightarrow> Inr \<lparr>bt_type = bt, bt_required = required, bt_valueType = isValueType h bt\<rparr>
             | None \<Rightarrow> Inr \<lparr>bt_type = ''object'', bt_required = required, bt_valueType = False\<rparr>)
          else if st_kind st = InputObjectType then
            Inr \<lparr>bt_type = convertName h (Some (st_name st)), bt_required = required, bt_valueType = False\<rparr>
          else if st_kind st = EnumType then
            Inr \<lparr>bt_type = convertName h (Some (st_name st)), bt_required = required, bt_valueType = True\<rparr>
          else
            Inr \<lparr>bt_type = st_name st, bt_required = required, bt_valueType = False\<rparr>)"

text \<open>\<^verbatim>\<open>(result.listType || result.baseType).required = false\<close>\<close>

definition forceOptional :: "csharp_field_type \<Rightarrow> csharp_field_type" where
  "forceOptional result =
     (case listType result of
        Some (ListTypeField r inner) \<Rightarrow> result\<lparr>listType := Some (ListTypeField False inner)\<rparr>
      | None \<Rightarrow> result\<lparr>baseType := (baseType result)\<lparr>bt_required := False\<rparr>\<rparr>)"

definition resolveFieldType ::
  "helpers \<Rightarrow> visitor \<Rightarrow> type_node \<Rightarrow> bool \<Rightarrow> error + csharp_field_type" where
  "resolveFieldType h v typeNode hasDefaultValue =
     (let innerType = getBaseTypeNode typeNode;
          schemaType = getType v innerType;
          lt = getListTypeField typeNode;
          required = isNonNullType (getListInnerTypeNode typeNode)
      in case resolveBaseType h v schemaType required of
           Inl e \<Rightarrow> Inl e
         | Inr bt \<Rightarrow>
             (let result = \<lparr>baseType = bt, listType = lt\<rparr>
              in Inr (if hasDefaultValue then forceOptional result else result)))"

section \<open>Text utilities of the language\<close>

definition nl :: string where
  "nl = ''\<newline>''"

text \<open>\<^verbatim>\<open>Array.prototype.join\<close>\<close>

fun join :: "string \<Rightarrow> string list \<Rightarrow> string" where
  "join sep [] = []"
| "join sep [x] = x"
| "join sep (x # y # ys) = x @ sep @ join sep (y # ys)"

text \<open>
  \<^verbatim>\<open>String.prototype.toLowerCase\<close> on the letters a GraphQL name can hold (names are
  ASCII: a letter, a digit or an underscore).
\<close>

definition toLowerChar :: "char \<Rightarrow> char" where
  "toLowerChar c =
     (case map_of (zip ''ABCDEFGHIJKLMNOPQRSTUVWXYZ'' ''abcdefghijklmnopqrstuvwxyz'') c of
        Some l \<Rightarrow> l
      | None \<Rightarrow> c)"

definition toLowerCase :: "string \<Rightarrow> string" where
  "toLowerCase s = map toLowerChar s"

text \<open>\<^verbatim>\<open>s.startsWith(p)\<close> and \<^verbatim>\<open>s.endsWith('s')\<close>\<close>

definition startsWith :: "string \<Rightarrow> string \<Rightarrow> bool" where
  "startsWith s p = (take (length p) s = p)"

definition endsWithS :: "string \<Rightarrow> bool" where
  "endsWithS s = (s \<noteq> [] \<and> last s = CHR ''s'')"

text \<open>
  A \<^verbatim>\<open>map\<close> whose callback may throw or not return: the first element, in order, that
  does not return a value decides.
\<close>

fun collect :: "('e + 'a) option list \<Rightarrow> ('e + 'a list) option" where
  "collect [] = Some (Inr [])"
| "collect (None # rs) = None"
| "collect (Some (Inl e) # rs) = Some (Inl e)"
| "collect (Some (Inr x) # rs) =
     (case collect rs of
        None \<Rightarrow> None
      | Some (Inl e) \<Rightarrow> Some (Inl e)
      | Some (Inr xs) \<Rightarrow> Some (Inr (x # xs)))"

fun collectE :: "('e + 'a) list \<Rightarrow> 'e + 'a list" where
  "collectE [] = Inr []"
| "collectE (Inl e # rs) = Inl e"
| "collectE (Inr x # rs) =
     (case collectE rs of
        Inl e \<Rightarrow> Inl e
      | Inr xs \<Rightarrow> Inr (x # xs))"

section \<open>Selection compiler\<close>

text \<open>
  \<^verbatim>\<open>definitions.find(d => d.kind === Kind.OBJECT_TYPE_DEFINITION && p(d.name.value))\<close>:
  the first object type definition whose name satisfies \<^verbatim>\<open>p\<close>.
\<close>

fun findObjectType :: "(string \<Rightarrow> bool) \<Rightarrow> definition_node list \<Rightarrow> object_type_definition option" where
  "findObjectType p [] = None"
| "findObjectType p (ObjectTypeDefinitionNode d # ds) =
     (if p (otd_name d) then Some d else findObjectType p ds)"
| "findObjectType p (OperationDefinitionNode d # ds) = findObjectType p ds"
| "findObjectType p (FragmentDefinitionNode d # ds) = findObjectType p ds"
| "findObjectType p (InputObjectTypeDefinitionNode d # ds) = findObjectType p ds"
| "findObjectType p (EnumTypeDefinitionNode d # ds) = findObjectType p ds"
| "findObjectType p (OtherDefinitionNode # ds) = findObjectType p ds"

definition jsonProperty :: "string \<Rightarrow> string" where
  \<open>jsonProperty wireName = ''[JsonProperty("'' @ wireName @ ''")]''\<close>

text \<open>
  The two lines every property is emitted as: the serialization tag with the wire name,
  and the property with its type and in-class name.
\<close>

definition propertyText :: "helpers \<Rightarrow> string \<Rightarrow> string \<Rightarrow> string \<Rightarrow> string" where
  "propertyText h wireName typeName propertyName =
     indentMultiline h
       (join nl [jsonProperty wireName,
                 ''public '' @ typeName @ '' '' @ propertyName @ '' { get; set; }''] @ nl) 1"

text \<open>A field without a selection set.\<close>

definition leafFieldText :: "helpers \<Rightarrow> string \<Rightarrow> csharp_field_type \<Rightarrow> string" where
  "leafFieldText h name responseType =
     propertyText h name
       (wrapFieldType responseType (listType responseType) ''List'')
       (convertSafeName h (pascalCase h name))"

text \<open>
  \<^verbatim>\<open>selections.length === 1 && selections[0].kind === Kind.FRAGMENT_SPREAD\<close>: the name
  of the fragment when the selection set is one fragment spread.
\<close>

fun soleFragmentSpread :: "selection list \<Rightarrow> string option" where
  "soleFragmentSpread [FragmentSpread f] = Some f"
| "soleFragmentSpread sels = None"

definition getFragmentClassName :: "helpers \<Rightarrow> string \<Rightarrow> string" where
  "getFragmentClassName h fragmentName = convertName h (Some fragmentName)"

text \<open>A field whose selection set is one fragment spread: no class of its own.\<close>

definition spreadFieldText :: "helpers \<Rightarrow> string \<Rightarrow> string \<Rightarrow> csharp_field_type \<Rightarrow> string" where
  "spreadFieldText h name fragmentName responseType =
     (let responseTypeName = getFragmentClassName h fragmentName
      in if listType responseType \<noteq> None
         then propertyText h name (''List<'' @ responseTypeName @ ''>'') (responseTypeName @ ''s'')
         else propertyText h name responseTypeName responseTypeName)"

text \<open>The name of the class synthesised for a composite field.\<close>

definition resultClassName :: "helpers \<Rightarrow> string \<Rightarrow> csharp_field_type \<Rightarrow> string" where
  "resultClassName h name fieldType =
     (let baseTypeName = pascalCase h name;
          baseTypeName = (if listType fieldType \<noteq> None \<and> endsWithS baseTypeName
                          then butlast baseTypeName else baseTypeName)
      in convertSafeName h (baseTypeName @ ''Result''))"

text \<open>
  \<^verbatim>\<open>Object.assign(fieldType, { baseType: { type: baseTypeName } })\<close>: the new base type
  has no \<^verbatim>\<open>required\<close> and no \<^verbatim>\<open>valueType\<close>, which read as false.
\<close>

definition selectionType :: "helpers \<Rightarrow> string \<Rightarrow> csharp_field_type \<Rightarrow> csharp_field_type" where
  "selectionType h name responseType =
     responseType\<lparr>baseType :=
       \<lparr>bt_type = resultClassName h name responseType, bt_required = False, bt_valueType = False\<rparr>\<rparr>"

text \<open>A composite field: the synthesised class, then the property of that class.\<close>

definition nestedFieldText :: "helpers \<Rightarrow> string \<Rightarrow> csharp_field_type \<Rightarrow> string \<Rightarrow> string" where
  "nestedFieldText h name responseType selectionFields =
     (let baseTypeName = resultClassName h name responseType;
          selectionTypeName =
            wrapFieldType (selectionType h name responseType) (listType responseType) ''List'';
          innerClassDefinition =
            blockString h \<lparr>db_access = Some ''public'', db_kind = ''class'',
              db_name = Some baseTypeName, db_implements = [], db_block = selectionFields\<rparr>
      in indentMultiline h
           (join nl [innerClassDefinition, jsonProperty name,
                     ''public '' @ selectionTypeName @ '' Result { get; set; }''] @ nl) 1)"

text \<open>
  The message of the error an inline fragment raises inside a field or an inlined
  fragment. The template prints \<^verbatim>\<open>node.name\<close>, a name node, which JavaScript renders as
  \<^verbatim>\<open>[object Object]\<close>, and then the kind of the selection.
\<close>

definition unsupportedKind :: error where
  "unsupportedKind = Error ''Unsupported kind; [object Object] InlineFragment''"

text \<open>
  \<^verbatim>\<open>_getFieldDefinition\<close> and \<^verbatim>\<open>_getFragmentSpreadDefinition\<close>. The recursion follows
  fragment spreads through the fragment table and need not end (a fragment may spread
  itself), so it runs on fuel, one unit per call; \<^const>\<open>None\<close> says the fuel ran out.
\<close>

fun getFieldDefinition ::
  "helpers \<Rightarrow> visitor \<Rightarrow> nat \<Rightarrow> string \<Rightarrow> selection list option \<Rightarrow>
   object_type_definition option \<Rightarrow> (error + string) option"
and getFragmentSpreadDefinition ::
  "helpers \<Rightarrow> visitor \<Rightarrow> nat \<Rightarrow> string \<Rightarrow> object_type_definition option \<Rightarrow>
   (error + string) option"
where
  "getFieldDefinition h v 0 name selectionSet parentSchema = None"
| "getFieldDefinition h v (Suc n) name selectionSet parentSchema =
     (case parentSchema of
        None \<Rightarrow> Some (Inl (TypeError ''parentSchema.fields''))
      | Some parent \<Rightarrow>
          (case find (\<lambda>f. fd_name f = name) (otd_fields parent) of
             None \<Rightarrow> Some (Inl (Error (''Field schema not found; '' @ name)))
           | Some fieldSchema \<Rightarrow>
               (case resolveFieldType h v (fd_type fieldSchema) False of
                  Inl e \<Rightarrow> Some (Inl e)
                | Inr responseType \<Rightarrow>
                    (case selectionSet of
                       None \<Rightarrow> Some (Inr (leafFieldText h name responseType))
                     | Some selections \<Rightarrow>
                         (let innerClassSchema =
                                findObjectType (\<lambda>n. n = bt_type (baseType responseType)) (schemaAST v)
                          in case soleFragmentSpread selections of
                               Some fragmentName \<Rightarrow>
                                 Some (Inr (spreadFieldText h name fragmentName responseType))
                             | None \<Rightarrow>
                                 (case collect (map (\<lambda>s. case s of
                                                   InlineFragment sub \<Rightarrow> Some (Inl unsupportedKind)
                                                 | FragmentSpread f \<Rightarrow>
                                                     getFragmentSpreadDefinition h v n f innerClassSchema
                                                 | Field nm sub \<Rightarrow>
                                                     getFieldDefinition h v n nm sub innerClassSchema)
                                               selections) of
                                    None \<Rightarrow> None
                                  | Some (Inl e) \<Rightarrow> Some (Inl e)
                                  | Some (Inr selectionFields) \<Rightarrow>
                                      Some (Inr (nestedFieldText h name responseType
                                                   (join nl selectionFields)))))))))"
| "getFragmentSpreadDefinition h v 0 name parentSchema = None"
| "getFragmentSpreadDefinition h v (Suc n) name parentSchema =
     (case find (\<lambda>f. lf_name f = name) (fragments v) of
        None \<Rightarrow> Some (Inl (Error (''Fragment schema not found; '' @ name)))
      | Some fragmentSchema \<Rightarrow>
          (case collect (map (\<lambda>s. case s of
                            InlineFragment sub \<Rightarrow> Some (Inl unsupportedKind)
                          | Field nm sub \<Rightarrow> getFieldDefinition h v n nm sub parentSchema
                          | FragmentSpread f \<Rightarrow> getFragmentSpreadDefinition h v n f parentSchema)
                        (fr_selections (lf_node fragmentSchema))) of
             None \<Rightarrow> None
           | Some (Inl e) \<Rightarrow> Some (Inl e)
           | Some (Inr parts) \<Rightarrow> Some (Inr (join nl parts))))"

text \<open>
  The callback that both functions map over a selection set, by name: an inline fragment
  throws, a field and a fragment spread are compiled against the given schema type.
\<close>

definition compileSelection ::
  "helpers \<Rightarrow> visitor \<Rightarrow> nat \<Rightarrow> object_type_definition option \<Rightarrow> selection \<Rightarrow>
   (error + string) option" where
  "compileSelection h v n schemaDef s =
     (case s of
        InlineFragment sub \<Rightarrow> Some (Inl unsupportedKind)
      | FragmentSpread f \<Rightarrow> getFragmentSpreadDefinition h v n f schemaDef
      | Field nm sub \<Rightarrow> getFieldDefinition h v n nm sub schemaDef)"

section \<open>Naming\<close>

definition getResponseClassName :: "helpers \<Rightarrow> operation_definition \<Rightarrow> string" where
  "getResponseClassName h node =
     (let className = convertName h (op_name node) @ ''Payload''
      in if startsWith className ''Get'' then drop 3 className else className)"

definition getVariablesClassName :: "helpers \<Rightarrow> operation_definition \<Rightarrow> string" where
  "getVariablesClassName h node = convertName h (op_name node) @ ''Request''"

section \<open>Operation compiler\<close>

text \<open>
  The callback of \<^verbatim>\<open>getResponseClass\<close> and \<^verbatim>\<open>getFragmentClass\<close> at a top-level
  selection: anything but a field throws, with the kind of the selection in the message.
\<close>

fun topLevelSelection ::
  "helpers \<Rightarrow> visitor \<Rightarrow> nat \<Rightarrow> object_type_definition option \<Rightarrow> selection \<Rightarrow>
   (error + string) option" where
  "topLevelSelection h v n schemaDef (Field nm sub) = getFieldDefinition h v n nm sub schemaDef"
| "topLevelSelection h v n schemaDef (FragmentSpread f) =
     Some (Inl (Error ''Unknown kind; FragmentSpread in OperationDefinitionNode''))"
| "topLevelSelection h v n schemaDef (InlineFragment sub) =
     Some (Inl (Error ''Unknown kind; InlineFragment in OperationDefinitionNode''))"

text \<open>
  The root type of an operation: the first object type definition of the schema whose
  lower-cased name is the operation's kind.
\<close>

definition operationSchemaOf :: "visitor \<Rightarrow> operation_definition \<Rightarrow> object_type_definition option" where
  "operationSchemaOf v node =
     findObjectType (\<lambda>n. toLowerCase n = op_operation node) (schemaAST v)"

definition getResponseClass ::
  "helpers \<Rightarrow> visitor \<Rightarrow> nat \<Rightarrow> operation_definition \<Rightarrow> (error + string) option" where
  "getResponseClass h v n node =
     (let operationSchema = operationSchemaOf v node
      in case collect (map (topLevelSelection h v n operationSchema) (op_selections node)) of
           None \<Rightarrow> None
         | Some (Inl e) \<Rightarrow> Some (Inl e)
         | Some (Inr fs) \<Rightarrow>
             Some (Inr (blockString h \<lparr>db_access = Some ''public'', db_kind = ''class'',
               db_name = Some (getResponseClassName h node), db_implements = [],
               db_block = nl @ join nl fs\<rparr>)))"

definition getFragmentClass ::
  "helpers \<Rightarrow> visitor \<Rightarrow> nat \<Rightarrow> fragment_definition \<Rightarrow> (error + string) option" where
  "getFragmentClass h v n node =
     (let fragmentSchema = findObjectType (\<lambda>nm. nm = fr_typeCondition node) (schemaAST v)
      in case collect (map (topLevelSelection h v n fragmentSchema) (fr_selections node)) of
           None \<Rightarrow> None
         | Some (Inl e) \<Rightarrow> Some (Inl e)
         | Some (Inr fs) \<Rightarrow>
             Some (Inr (blockString h \<lparr>db_access = Some ''public'', db_kind = ''class'',
               db_name = Some (convertName h (Some (fr_name node))), db_implements = [],
               db_block = nl @ join nl fs\<rparr>)))"

subsection \<open>getRequestClass\<close>

text \<open>The property of one variable (the callback of the \<^verbatim>\<open>map\<close>).\<close>

definition requestField :: "helpers \<Rightarrow> visitor \<Rightarrow> variable_definition \<Rightarrow> error + string" where
  "requestField h v var =
     (case resolveFieldType h v (vd_type var) False of
        Inl e \<Rightarrow> Inl e
      | Inr inputType \<Rightarrow>
          Inr (propertyText h (vd_name var)
                 (wrapFieldType inputType (listType inputType) ''List'')
                 (convertSafeName h (pascalCase h (vd_name var)))))"

text \<open>
  The first loop: \<^verbatim>\<open>constructorParams\<close> grows by one parameter per variable, with a
  comma after every parameter but the last (\<^verbatim>\<open>i < length - 1\<close>: more variables follow).
\<close>

fun constructorParamsLoop ::
  "helpers \<Rightarrow> visitor \<Rightarrow> variable_definition list \<Rightarrow> string \<Rightarrow> error + string" where
  "constructorParamsLoop h v [] constructorParams = Inr constructorParams"
| "constructorParamsLoop h v (variable # rest) constructorParams =
     (case resolveFieldType h v (vd_type variable) False of
        Inl e \<Rightarrow> Inl e
      | Inr inputType \<Rightarrow>
          (let inputTypeName = wrapFieldType inputType (listType inputType) ''List'';
               inputName = convertSafeName h (vd_name variable);
               constructorParams = constructorParams @ inputTypeName @ '' '' @ inputName;
               constructorParams = (if rest \<noteq> [] then constructorParams @ '', '' else constructorParams)
           in constructorParamsLoop h v rest constructorParams))"

text \<open>The second loop: one assignment per variable.\<close>

fun constructorBodyLoop :: "helpers \<Rightarrow> variable_definition list \<Rightarrow> string \<Rightarrow> string" where
  "constructorBodyLoop h [] constructor = constructor"
| "constructorBodyLoop h (variable # rest) constructor =
     (let inputName = convertSafeName h (vd_name variable);
          inputVariableName = convertSafeName h (pascalCase h (vd_name variable))
      in constructorBodyLoop h rest
           (constructor @ nl @ ''  '' @ inputVariableName @ '' = '' @ inputName @ '';''))"

definition getRequestClass :: "helpers \<Rightarrow> visitor \<Rightarrow> operation_definition \<Rightarrow> error + string" where
  "getRequestClass h v node =
     (case op_variableDefinitions node of
        None \<Rightarrow> Inr ''''
      | Some [] \<Rightarrow> Inr ''''
      | Some (v0 # vs) \<Rightarrow>
          (case collectE (map (requestField h v) (v0 # vs)) of
             Inl e \<Rightarrow> Inl e
           | Inr fs \<Rightarrow>
               (let fields = nl @ join nl fs
                in case constructorParamsLoop h v (v0 # vs) '''' of
                     Inl e \<Rightarrow> Inl e
                   | Inr constructorParams \<Rightarrow>
                       (let constructor =
                              ''public '' @ getVariablesClassName h node @ ''('' @ constructorParams @ '') {'';
                            constructor = constructorBodyLoop h (v0 # vs) constructor;
                            constructor = constructor @ nl @ ''}'';
                            contents = join nl [fields, constructor]
                        in Inr (blockString h \<lparr>db_access = Some ''public'', db_kind = ''class'',
                                  db_name = Some (getVariablesClassName h node), db_implements = [],
                                  db_block = contents\<rparr>)))))"

text \<open>
  The request class in the spec's words, to compare \<^const>\<open>getRequestClass\<close> with: one
  property per variable, tagged with the variable's own name; one constructor, with one
  parameter per variable in declaration order, whose body assigns each parameter to the
  pascal-cased property of the same variable.
\<close>

definition variableTypeName :: "helpers \<Rightarrow> visitor \<Rightarrow> variable_definition \<Rightarrow> string" where
  "variableTypeName h v var =
     (case resolveFieldType h v (vd_type var) False of
        Inl e \<Rightarrow> []
      | Inr inputType \<Rightarrow> wrapFieldType inputType (listType inputType) ''List'')"

definition requestProperty :: "helpers \<Rightarrow> visitor \<Rightarrow> variable_definition \<Rightarrow> string" where
  "requestProperty h v var =
     propertyText h (vd_name var) (variableTypeName h v var)
       (convertSafeName h (pascalCase h (vd_name var)))"

definition constructorParameter :: "helpers \<Rightarrow> visitor \<Rightarrow> variable_definition \<Rightarrow> string" where
  "constructorParameter h v var =
     variableTypeName h v var @ '' '' @ convertSafeName h (vd_name var)"

definition constructorAssignment :: "helpers \<Rightarrow> variable_definition \<Rightarrow> string" where
  "constructorAssignment h var =
     nl @ ''  '' @ convertSafeName h (pascalCase h (vd_name var)) @ '' = '' @
     convertSafeName h (vd_name var) @ '';''"

definition requestClassShape ::
  "helpers \<Rightarrow> visitor \<Rightarrow> operation_definition \<Rightarrow> variable_definition list \<Rightarrow> string" where
  "requestClassShape h v node vs =
     blockString h \<lparr>db_access = Some ''public'', db_kind = ''class'',
       db_name = Some (getVariablesClassName h node), db_implements = [],
       db_block =
         join nl
           [nl @ join nl (map (requestProperty h v) vs),
            ''public '' @ getVariablesClassName h node @ ''('' @
            join '', '' (map (constructorParameter h v) vs) @ '') {'' @
            concat (map (constructorAssignment h) vs) @ nl @ ''}'']\<rparr>"

subsection \<open>Enums and inputs\<close>

definition enumText :: "helpers \<Rightarrow> enum_type_definition \<Rightarrow> string" where
  "enumText h node =
     indentMultiline h
       (blockString h \<lparr>db_access = Some ''public'', db_kind = ''enum'',
          db_name = Some (convertSafeName h (convertName h (Some (etd_name node)))),
          db_implements = [],
          db_block = indentMultiline h (join ('','' @ nl) (etd_values node)) 1\<rparr>) 2"

text \<open>\<^verbatim>\<open>getEnumDefinition\<close>: the method the plugin entry calls; it reads no flag.\<close>

definition getEnumDefinition :: "helpers \<Rightarrow> visitor \<Rightarrow> enum_type_definition \<Rightarrow> string" where
  "getEnumDefinition h v node = enumText h node"

text \<open>\<^verbatim>\<open>EnumTypeDefinition\<close>: the visitor's handler, behind the typesafe flag.\<close>

definition EnumTypeDefinition :: "helpers \<Rightarrow> visitor \<Rightarrow> enum_type_definition \<Rightarrow> string" where
  "EnumTypeDefinition h v node =
     (if \<not> typesafeOperation (config v) then '''' else enumText h node)"

definition inputField :: "helpers \<Rightarrow> visitor \<Rightarrow> field_definition \<Rightarrow> error + string" where
  "inputField h v f =
     (case resolveFieldType h v (fd_type f) False of
        Inl e \<Rightarrow> Inl e
      | Inr inputType \<Rightarrow>
          Inr (propertyText h (fd_name f)
                 (wrapFieldType inputType (listType inputType) ''List'')
                 (convertSafeName h (pascalCase h (fd_name f)))))"

text \<open>
  \<^verbatim>\<open>InputObjectTypeDefinition\<close>, behind the typesafe flag. Every field of an input object
  is an input value definition; \<^verbatim>\<open>filter(f => !!f)\<close> drops the empty texts.
\<close>

definition InputObjectTypeDefinition ::
  "helpers \<Rightarrow> visitor \<Rightarrow> input_object_type_definition \<Rightarrow> error + string" where
  "InputObjectTypeDefinition h v node =
     (if \<not> typesafeOperation (config v) then Inr ''''
      else case collectE (map (inputField h v) (iotd_fields node)) of
             Inl e \<Rightarrow> Inl e
           | Inr fs \<Rightarrow>
               Inr (indentMultiline h
                      (blockString h \<lparr>db_access = Some ''public'', db_kind = ''class'',
                         db_name = Some (convertSafeName h (convertName h (Some (iotd_name node)))),
                         db_implements = [],
                         db_block = nl @ join nl (filter (\<lambda>f. f \<noteq> []) fs)\<rparr>) 2))"

subsection \<open>Method signatures\<close>

definition variablesObjectName :: string where
  "variablesObjectName = ''request''"

definition clientArgument :: "visitor \<Rightarrow> string" where
  "clientArgument v = (if httpClientConfig (config v) \<noteq> None then '''' else ''IGraphQLClient client, '')"

definition httpArguments :: string where
  \<open>httpArguments = ''string authToken = "", Dictionary<string, string> headers = null''\<close>

definition hasVariables :: "operation_definition \<Rightarrow> bool" where
  "hasVariables node = (case op_variableDefinitions node of None \<Rightarrow> False | Some vs \<Rightarrow> vs \<noteq> [])"

definition getVariablesArguments :: "helpers \<Rightarrow> operation_definition \<Rightarrow> string" where
  "getVariablesArguments h node =
     (if hasVariables node
      then getVariablesClassName h node @ '' '' @ variablesObjectName @ '', ''
      else '''')"

definition getMutationMethodDefinition :: "helpers \<Rightarrow> visitor \<Rightarrow> operation_definition \<Rightarrow> string" where
  "getMutationMethodDefinition h v node =
     ''Task<GraphQLResponse<'' @ getResponseClassName h node @ ''>> '' @
     convertName h (op_name node) @ ''Async(\<newline>'' @
     ''                  '' @ clientArgument v @ ''\<newline>'' @
     ''                  '' @ getVariablesArguments h node @ ''\<newline>'' @
     ''                  '' @
     (if httpClientConfig (config v) \<noteq> None then httpArguments @ '', '' else '''') @
     ''\<newline>'' @
     ''                  System.Threading.CancellationToken cancellationToken = default\<newline>'' @
     ''                )''"

definition getSubscriptionMethodDefinition :: "helpers \<Rightarrow> visitor \<Rightarrow> operation_definition \<Rightarrow> string" where
  "getSubscriptionMethodDefinition h v node =
     ''IObservable<GraphQLResponse<'' @ getResponseClassName h node @
     ''>> CreateSubscriptionStream(\<newline>'' @
     ''                  '' @ clientArgument v @ ''\<newline>'' @
     ''                  '' @ getVariablesArguments h node @ ''\<newline>'' @
     ''                  '' @
     (if httpClientConfig (config v) \<noteq> None then httpArguments else '''') @
     ''\<newline>'' @
     ''            )''"

definition getSubscriptionMethodDefinitionWithHandler ::
  "helpers \<Rightarrow> visitor \<Rightarrow> operation_definition \<Rightarrow> string" where
  "getSubscriptionMethodDefinitionWithHandler h v node =
     ''IObservable<GraphQLResponse<'' @ getResponseClassName h node @
     ''>> CreateSubscriptionStream(\<newline>'' @
     ''                  '' @ clientArgument v @ ''\<newline>'' @
     ''                  '' @ getVariablesArguments h node @ ''\<newline>'' @
     ''                  Action<Exception> exceptionHandler\<newline>'' @
     ''                  '' @
     (if httpClientConfig (config v) \<noteq> None then '', '' @ httpArguments else '''') @
     ''\<newline>'' @
     ''            )''"

definition getOperationInterfaceMethods ::
  "helpers \<Rightarrow> visitor \<Rightarrow> operation_definition \<Rightarrow> error + string" where
  "getOperationInterfaceMethods h v node =
     (if op_operation node = ''query'' \<or> op_operation node = ''mutation'' then
        Inr (getMutationMethodDefinition h v node @ '';'')
      else if op_operation node = ''subscription'' then
        Inr (getSubscriptionMethodDefinition h v node @ '';\<newline>'' @
             ''                '' @ getSubscriptionMethodDefinitionWithHandler h v node @ '';'')
      else Inl (Error (''Unexpected operation type: '' @ op_operation node)))"

subsection \<open>getOperationConcreteMethod\<close>

text \<open>
  \<^verbatim>\<open>_getDocumentNodeVariable\<close>: the printed document, or in external mode a reference
  by the operation's name, which an anonymous operation does not have.
\<close>

definition getDocumentNodeVariable :: "helpers \<Rightarrow> visitor \<Rightarrow> operation_definition \<Rightarrow> error + string" where
  \<open>getDocumentNodeVariable h v node =
     (if documentMode (config v) \<noteq> External then
        Inr (''@"\<newline>'' @ indentMultiline h (gql h node) 4 @ ''"'')
      else case op_name node of
             None \<Rightarrow> Inl (TypeError ''node.name.value'')
           | Some n \<Rightarrow> Inr (''Operations.'' @ n))\<close>

definition variablesAssignment :: "operation_definition \<Rightarrow> string" where
  "variablesAssignment node =
     (if hasVariables node
      then '',\<newline>'' @ ''          Variables = '' @ variablesObjectName
      else '''')"

text \<open>
  The request object of the method body. The template reads the document first and
  \<^verbatim>\<open>node.name.value\<close> second.
\<close>

definition requestText :: "helpers \<Rightarrow> visitor \<Rightarrow> operation_definition \<Rightarrow> error + string" where
  \<open>requestText h v node =
     (case getDocumentNodeVariable h v node of
        Inl e \<Rightarrow> Inl e
      | Inr document \<Rightarrow>
          (case op_name node of
             None \<Rightarrow> Inl (TypeError ''node.name.value'')
           | Some operationName \<Rightarrow>
               if httpClientConfig (config v) \<noteq> None then
                 Inr (''\<newline>'' @
                      ''      var gqlRequest = new GraphQLHttpRequestWithHeaders {\<newline>'' @
                      ''          Query = '' @ document @ '',\<newline>'' @
                      ''          AuthToken = authToken,\<newline>'' @
                      ''          Headers = headers,\<newline>'' @
                      ''          OperationName = "'' @ operationName @ ''"'' @
                      variablesAssignment node @ ''\<newline>'' @
                      ''      };'')
               else
                 Inr (''\<newline>'' @
                      ''      var gqlRequest = new GraphQLRequest {\<newline>'' @
                      ''          Query = '' @ document @ '',\<newline>'' @
                      ''          OperationName = "'' @ operationName @ ''"'' @
                      variablesAssignment node @ ''\<newline>'' @
                      ''      };'')))\<close>

text \<open>
  The input signatures the method computes (\<^verbatim>\<open>_gqlInputSignature\<close>) are read only for
  their number, which is the number of variables; computing them throws nothing.
\<close>

definition getOperationConcreteMethod ::
  "helpers \<Rightarrow> visitor \<Rightarrow> operation_definition \<Rightarrow> error + string" where
  "getOperationConcreteMethod h v node =
     (case operationSchemaOf v node of
        None \<Rightarrow> Inl (Error (''Operation schema not found; '' @ op_operation node))
      | Some operationSchema \<Rightarrow>
          (case requestText h v node of
             Inl e \<Rightarrow> Inl e
           | Inr request \<Rightarrow>
               if op_operation node = ''query'' \<or> op_operation node = ''mutation'' then
                 Inr (''\<newline>'' @
                      ''          public '' @ getMutationMethodDefinition h v node @ '' {\<newline>'' @
                      ''            '' @ request @ ''\<newline>'' @
                      ''            return client.Send'' @ otd_name operationSchema @ ''Async<'' @
                      getResponseClassName h node @ ''>(gqlRequest, cancellationToken);\<newline>'' @
                      ''          }\<newline>'' @
                      ''        '')
               else if op_operation node = ''subscription'' then
                 Inr (''\<newline>'' @
                      ''          public '' @ getSubscriptionMethodDefinition h v node @ '' {\<newline>'' @
                      ''            '' @ request @ ''\<newline>'' @
                      ''            return client.CreateSubscriptionStream<'' @
                      getResponseClassName h node @ ''>(gqlRequest);\<newline>'' @
                      ''          }\<newline>'' @
                      ''\<newline>'' @
                      ''          public '' @ getSubscriptionMethodDefinitionWithHandler h v node @ '' {\<newline>'' @
                      ''            '' @ request @ ''\<newline>'' @
                      ''            return client.CreateSubscriptionStream<'' @
                      getResponseClassName h node @ ''>(gqlRequest, exceptionHandler);\<newline>'' @
                      ''          }\<newline>'' @
                      ''        '')
               else Inl (Error (''Unexpected operation type: '' @ op_operation node))))"

subsection \<open>The visitor's OperationDefinition handler\<close>

text \<open>
  The handler returns \<^verbatim>\<open>null\<close> (\<^const>\<open>None\<close> under \<^const>\<open>Inr\<close>) or a text, and may
  push the operation on \<^verbatim>\<open>_collectedOperations\<close>: the visitor is returned with the
  result. The three pieces of the typesafe text are computed in the template's order.
\<close>

definition typesafeOperationsText ::
  "helpers \<Rightarrow> visitor \<Rightarrow> nat \<Rightarrow> operation_definition \<Rightarrow> (error + string) option" where
  "typesafeOperationsText h v n node =
     (case getRequestClass h v node of
        Inl e \<Rightarrow> Some (Inl e)
      | Inr requestClass \<Rightarrow>
          (case getResponseClass h v n node of
             None \<Rightarrow> None
           | Some (Inl e) \<Rightarrow> Some (Inl e)
           | Some (Inr responseClass) \<Rightarrow>
               (case getOperationConcreteMethod h v node of
                  Inl e \<Rightarrow> Some (Inl e)
                | Inr method \<Rightarrow>
                    Some (Inr (indentMultiline h
                      (''\<newline>'' @
                       ''      '' @ requestClass @ ''\<newline>'' @
                       ''      '' @ responseClass @ ''\<newline>'' @
                       ''      public partial class '' @ operationsClassName (config v) @ '' {\<newline>'' @
                       ''        '' @ method @ ''\<newline>'' @
                       ''      }'') 3)))))"

definition anonymous :: "operation_definition \<Rightarrow> bool" where
  "anonymous node = (case op_name node of None \<Rightarrow> True | Some n \<Rightarrow> n = [])"

definition OperationDefinition ::
  "helpers \<Rightarrow> visitor \<Rightarrow> nat \<Rightarrow> operation_definition \<Rightarrow>
   (error + string option) option \<times> visitor" where
  "OperationDefinition h v n node =
     (if anonymous node then (Some (Inr None), v)
      else
        (let v' = v\<lparr>collectedOperations := collectedOperations v @ [node]\<rparr>
         in case (if typesafeOperation (config v') then typesafeOperationsText h v' n node
                  else Some (Inr [])) of
              None \<Rightarrow> (None, v')
            | Some (Inl e) \<Rightarrow> (Some (Inl e), v')
            | Some (Inr typesafeOperations) \<Rightarrow>
                (let content = typesafeOperations
                 in (Some (Inr (Some (join nl (filter (\<lambda>a. a \<noteq> []) [content])))), v'))))"

section \<open>Client surface\<close>

definition getCSharpImports :: "visitor \<Rightarrow> string" where
  "getCSharpImports v =
     (let imports = [''System'', ''System.Collections.Generic'', ''System.Threading.Tasks'',
                     ''System.Net.Http'', ''System.Net.Http.Headers'', ''Newtonsoft.Json'',
                     ''GraphQL'', ''GraphQL.Client.Abstractions''];
          imports = (if httpClientConfig (config v) \<noteq> None
                     then imports @ [''GraphQL.Client.Serializer.Newtonsoft'', ''GraphQL.Client.Http'']
                     else imports)
      in join nl (map (\<lambda>i. ''using '' @ i @ '';'') imports) @ nl)"

text \<open>
  \<^verbatim>\<open>getClientDeclaration\<close>. An absent endpoint or predicate is the empty string: the
  method reads them for their truthiness before it prints them.
\<close>

definition getClientDeclaration :: "visitor \<Rightarrow> string" where
  \<open>getClientDeclaration v =
     (case httpClientConfig (config v) of
        None \<Rightarrow> ''''
      | Some c \<Rightarrow>
          if prodEndpoint c = [] then ''''
          else
            (let clientDeclaration = ''private static GraphQLHttpClient _client;\<newline>''
             in if useDevIf c = [] \<or> devEndpoint c = [] then
                  clientDeclaration @
                  ''private static GraphQLHttpClient client {\<newline>'' @
                  ''          get {\<newline>'' @
                  ''            if (_client == null) {\<newline>'' @
                  ''              _client = new GraphQLHttpClient("'' @ prodEndpoint c @
                  ''", new NewtonsoftJsonSerializer());\<newline>'' @
                  ''            }\<newline>'' @
                  ''\<newline>'' @
                  ''            return _client;\<newline>'' @
                  ''          }\<newline>'' @
                  ''        }''
                else
                  clientDeclaration @
                  ''private static GraphQLHttpClient client {\<newline>'' @
                  ''          get {\<newline>'' @
                  ''            if (_client == null) {\<newline>'' @
                  ''              var endpoint = '' @ useDevIf c @ '' ? "'' @ devEndpoint c @
                  ''" : "'' @ prodEndpoint c @ ''";\<newline>'' @
                  ''              _client = new GraphQLHttpClient(endpoint, new NewtonsoftJsonSerializer());\<newline>'' @
                  ''            }\<newline>'' @
                  ''\<newline>'' @
                  ''            return _client;\<newline>'' @
                  ''          }\<newline>'' @
                  ''        }''))\<close>

definition getHttpRequestClass :: "visitor \<Rightarrow> string" where
  \<open>getHttpRequestClass v =
     (if httpClientConfig (config v) = None then ''''
      else
        ''\<newline>'' @
        ''    internal class GraphQLHttpRequestWithHeaders : GraphQLHttpRequest {\<newline>'' @
        ''      public string AuthToken { get; set; }\<newline>'' @
        ''      public Dictionary<string, string> Headers { get; set; }\<newline>'' @
        ''\<newline>'' @
        ''      public override HttpRequestMessage ToHttpRequestMessage(\<newline>'' @
        ''          GraphQLHttpClientOptions options,\<newline>'' @
        ''          IGraphQLJsonSerializer serializer) {\<newline>'' @
        ''          var r = base.ToHttpRequestMessage(options, serializer);\<newline>'' @
        ''\<newline>'' @
        ''          if (AuthToken != null) {\<newline>'' @
        ''              r.Headers.Authorization = new AuthenticationHeaderValue("Bearer", AuthToken);\<newline>'' @
        ''          }\<newline>'' @
        ''\<newline>'' @
        ''          if (Headers != null) {\<newline>'' @
        ''              foreach (var h in Headers) {\<newline>'' @
        ''                  r.Headers.Add(h.Key, h.Value);\<newline>'' @
        ''              }\<newline>'' @
        ''          }\<newline>'' @
        ''\<newline>'' @
        ''          return r;\<newline>'' @
        ''      }\<newline>'' @
        ''    }'')\<close>

definition getHasErrorExtension :: string where
  "getHasErrorExtension =
     ''\<newline>'' @
     ''    public static class GraphQLResponseExtensions {\<newline>'' @
     ''        public static bool HasError<T>(this GraphQLResponse<T> response) {\<newline>'' @
     ''            return response.Errors != null;\<newline>'' @
     ''        }\<newline>'' @
     ''    }''"

definition wrapWithNamespace :: "helpers \<Rightarrow> string \<Rightarrow> string \<Rightarrow> string" where
  "wrapWithNamespace h content name =
     blockString h \<lparr>db_access = None, db_kind = ''namespace'', db_name = Some name,
       db_implements = [], db_block = indentMultiline h content 1\<rparr>"

definition wrapWithClass :: "helpers \<Rightarrow> string \<Rightarrow> string \<Rightarrow> string \<Rightarrow> string" where
  "wrapWithClass h content name access =
     blockString h \<lparr>db_access = Some access, db_kind = ''class'',
       db_name = Some (convertSafeName h name), db_implements = [],
       db_block = indentMultiline h content 1\<rparr>"

section \<open>The plugin entry\<close>

text \<open>The constructor of the visitor: defaults for the absent options.\<close>

definition orDefault :: "string option \<Rightarrow> string \<Rightarrow> string" where
  "orDefault s d = (case s of None \<Rightarrow> d | Some x \<Rightarrow> if x = [] then d else x)"

definition newVisitor ::
  "(string \<rightharpoonup> schema_type) \<Rightarrow> definition_node list \<Rightarrow> (string \<rightharpoonup> string) \<Rightarrow>
   loaded_fragment list \<Rightarrow> raw_config \<Rightarrow> visitor" where
  "newVisitor schema ast scalarsMap frags rawConfig =
     \<lparr>getType = schema, schemaAST = ast, fragments = frags, scalars = scalarsMap,
      config = \<lparr>namespaceName = orDefault (raw_namespaceName rawConfig) ''GraphQLCodeGen'',
                operationsClassName = orDefault (raw_operationsClassName rawConfig) ''GraphQLClient'',
                typesafeOperation = (raw_typesafeOperation rawConfig = Some True),
                httpClientConfig = raw_httpClientConfig rawConfig,
                documentMode =
                  (case raw_documentMode rawConfig of
                     None \<Rightarrow> DocumentNode
                   | Some GraphQLTag \<Rightarrow> DocumentNode
                   | Some m \<Rightarrow> m)\<rparr>,
      collectedOperations = []\<rparr>"

text \<open>\<^verbatim>\<open>'I' + config.operationsClassName\<close>, on the raw configuration.\<close>

definition clientInterfaceName :: "raw_config \<Rightarrow> string" where
  "clientInterfaceName rawConfig =
     ''I'' @ (case raw_operationsClassName rawConfig of None \<Rightarrow> ''undefined'' | Some n \<Rightarrow> n)"

text \<open>A loop \<^verbatim>\<open>buffer += definition; buffer += '\n'\<close> over the definitions.\<close>

definition appendLines :: "string list \<Rightarrow> string" where
  "appendLines ds = foldl (\<lambda>buffer d. buffer @ d @ nl) [] ds"

record buffers =
  inputDefinitions :: string
  fragmentDefinitions :: string
  operationInterfaceMethods :: string
  operationDefinitions :: string
  requestDefinitions :: string
  responseDefinitions :: string
  enumDefinitions :: string

text \<open>
  The seven loops of the plugin entry, in their order; the first callback that throws
  ends the run.
\<close>

definition pluginBuffers ::
  "helpers \<Rightarrow> visitor \<Rightarrow> nat \<Rightarrow> definition_node list \<Rightarrow> (error + buffers) option" where
  "pluginBuffers h v n allAst =
     (let allOperations = [d. OperationDefinitionNode d \<leftarrow> allAst];
          allInputTypes = [d. InputObjectTypeDefinitionNode d \<leftarrow> allAst];
          allEnumTypes = [d. EnumTypeDefinitionNode d \<leftarrow> allAst]
      in case collectE (map (InputObjectTypeDefinition h v) allInputTypes) of
           Inl e \<Rightarrow> Some (Inl e)
         | Inr inputs \<Rightarrow>
         (case collect (map (\<lambda>f. getFragmentClass h v n (lf_node f)) (fragments v)) of
            None \<Rightarrow> None
          | Some (Inl e) \<Rightarrow> Some (Inl e)
          | Some (Inr frags) \<Rightarrow>
          (case collectE (map (getOperationInterfaceMethods h v) allOperations) of
             Inl e \<Rightarrow> Some (Inl e)
           | Inr interfaceMethods \<Rightarrow>
           (case collectE (map (getOperationConcreteMethod h v) allOperations) of
              Inl e \<Rightarrow> Some (Inl e)
            | Inr concreteMethods \<Rightarrow>
            (case collectE (map (getRequestClass h v) allOperations) of
               Inl e \<Rightarrow> Some (Inl e)
             | Inr requests \<Rightarrow>
             (case collect (map (getResponseClass h v n) allOperations) of
                None \<Rightarrow> None
              | Some (Inl e) \<Rightarrow> Some (Inl e)
              | Some (Inr responses) \<Rightarrow>
                  Some (Inr \<lparr>inputDefinitions = appendLines inputs,
                    fragmentDefinitions = appendLines frags,
                    operationInterfaceMethods = appendLines interfaceMethods,
                    operationDefinitions = appendLines concreteMethods,
                    requestDefinitions = appendLines requests,
                    responseDefinitions = appendLines responses,
                    enumDefinitions = appendLines (map (getEnumDefinition h v) allEnumTypes)\<rparr>)))))))"

definition assemble :: "helpers \<Rightarrow> visitor \<Rightarrow> raw_config \<Rightarrow> buffers \<Rightarrow> string" where
  "assemble h v rawConfig b =
     (let clientInterface =
            blockString h \<lparr>db_access = Some ''public'', db_kind = ''interface'',
              db_name = Some (clientInterfaceName rawConfig), db_implements = [],
              db_block = operationInterfaceMethods b\<rparr>;
          clientClass =
            blockString h \<lparr>db_access = Some ''public'', db_kind = ''class'',
              db_name = raw_operationsClassName rawConfig,
              db_implements = [clientInterfaceName rawConfig],
              db_block = join nl [getClientDeclaration v, operationDefinitions b]\<rparr>;
          blockContent =
            join nl [clientInterface, clientClass, requestDefinitions b, responseDefinitions b,
                     fragmentDefinitions b, inputDefinitions b, enumDefinitions b,
                     getHttpRequestClass v, getHasErrorExtension];
          wrappedContent = wrapWithNamespace h blockContent (namespaceName (config v));
          imports = getCSharpImports v
      in join nl [imports, wrappedContent])"

text \<open>
  \<^verbatim>\<open>plugin\<close>: the documents' definitions followed by the schema's; the fragments of
  the documents followed by the external ones; then the loops and the assembly.
\<close>

definition allFragmentsOf :: "definition_node list \<Rightarrow> raw_config \<Rightarrow> loaded_fragment list" where
  "allFragmentsOf allAst rawConfig =
     [\<lparr>lf_name = fr_name d, lf_onType = fr_typeCondition d, lf_node = d, lf_isExternal = False\<rparr>.
        FragmentDefinitionNode d \<leftarrow> allAst] @
     (case raw_externalFragments rawConfig of None \<Rightarrow> [] | Some fs \<Rightarrow> fs)"

definition pluginVisitor ::
  "(string \<rightharpoonup> schema_type) \<Rightarrow> definition_node list \<Rightarrow> (string \<rightharpoonup> string) \<Rightarrow>
   definition_node list list \<Rightarrow> raw_config \<Rightarrow> visitor" where
  "pluginVisitor schema ast scalarsMap documents rawConfig =
     newVisitor schema ast scalarsMap (allFragmentsOf (concat documents @ ast) rawConfig) rawConfig"

definition plugin ::
  "helpers \<Rightarrow> (string \<rightharpoonup> schema_type) \<Rightarrow> definition_node list \<Rightarrow> (string \<rightharpoonup> string) \<Rightarrow>
   nat \<Rightarrow> definition_node list list \<Rightarrow> raw_config \<Rightarrow> (error + string) option" where
  "plugin h schema ast scalarsMap n documents rawConfig =
     (let allAst = concat documents @ ast;
          v = pluginVisitor schema ast scalarsMap documents rawConfig
      in case pluginBuffers h v n allAst of
           None \<Rightarrow> None
         | Some (Inl e) \<Rightarrow> Some (Inl e)
         | Some (Inr b) \<Rightarrow> Some (Inr (assemble h v rawConfig b)))"

section \<open>A concrete instance\<close>

text \<open>
  Modelled from the spec: the helper packages (change-case-all, c-sharp-common,
  visitor-plugin-common) are not among the sources. The spec takes naming-case
  conversion as a pure function and the declaration-block emitter as a generic text
  emitter (access modifier, kind, name, block punctuation, indentation). This instance of
  the helpers is used where the model is evaluated at a concrete input; the general
  theorems hold for every instance.
\<close>

definition toUpperChar :: "char \<Rightarrow> char" where
  "toUpperChar c =
     (case map_of (zip ''abcdefghijklmnopqrstuvwxyz'' ''ABCDEFGHIJKLMNOPQRSTUVWXYZ'') c of
        Some u \<Rightarrow> u
      | None \<Rightarrow> c)"

fun upperFirst :: "string \<Rightarrow> string" where
  "upperFirst [] = []"
| "upperFirst (c # cs) = toUpperChar c # cs"

fun indentLines :: "string \<Rightarrow> string \<Rightarrow> string" where
  "indentLines indentation [] = []"
| "indentLines indentation (c # cs) =
     (if c = CHR 0x0A then c # indentation @ indentLines indentation cs
      else c # indentLines indentation cs)"

definition sampleIndentMultiline :: "string \<Rightarrow> nat \<Rightarrow> string" where
  "sampleIndentMultiline s count =
     (let indentation = concat (replicate count ''  '')
      in indentation @ indentLines indentation s)"

definition sampleBlockString :: "declaration_block \<Rightarrow> string" where
  "sampleBlockString b =
     (case db_access b of None \<Rightarrow> [] | Some a \<Rightarrow> a @ '' '') @
     db_kind b @ '' '' @
     (case db_name b of None \<Rightarrow> ''undefined'' | Some n \<Rightarrow> n) @
     (if db_implements b = [] then [] else '' : '' @ join '', '' (db_implements b)) @
     '' '' @ join nl (filter (\<lambda>f. f \<noteq> []) [''{'', db_block b, ''}'']) @ nl"

definition sampleHelpers :: helpers where
  "sampleHelpers =
     \<lparr>pascalCase = upperFirst,
      convertSafeName = (\<lambda>n. if n \<in> set [''class'', ''namespace'', ''event'', ''object''] then ''@'' @ n else n),
      convertName = (\<lambda>n. case n of None \<Rightarrow> [] | Some s \<Rightarrow> upperFirst s),
      indentMultiline = sampleIndentMultiline,
      isValueType = (\<lambda>t. t \<in> set [''int'', ''bool'', ''float'', ''double'', ''DateTime'']),
      blockString = sampleBlockString,
      gql = (\<lambda>node. op_operation node @ '' '' @ (case op_name node of None \<Rightarrow> [] | Some n \<Rightarrow> n))\<rparr>"

text \<open>
  A small schema: the root type \<^verbatim>\<open>Query\<close> with \<^verbatim>\<open>user: User\<close> and
  \<^verbatim>\<open>users: [User!]!\<close>, the type \<^verbatim>\<open>User\<close> with \<^verbatim>\<open>id: Int!\<close> and \<^verbatim>\<open>name: String\<close>,
  the enum \<^verbatim>\<open>Role\<close>, the input \<^verbatim>\<open>UserInput\<close>, and the scalars \<^verbatim>\<open>String\<close>,
  \<^verbatim>\<open>Int\<close> (mapped) and \<^verbatim>\<open>Date\<close> (not mapped).
\<close>

definition sampleQueryType :: object_type_definition where
  "sampleQueryType =
     \<lparr>otd_name = ''Query'',
      otd_fields = [\<lparr>fd_name = ''user'', fd_type = NamedType ''User''\<rparr>,
                    \<lparr>fd_name = ''users'',
                      fd_type = NonNullType (ListType (NonNullType (NamedType ''User'')))\<rparr>]\<rparr>"

definition sampleUserType :: object_type_definition where
  "sampleUserType =
     \<lparr>otd_name = ''User'',
      otd_fields = [\<lparr>fd_name = ''id'', fd_type = NonNullType (NamedType ''Int'')\<rparr>,
                    \<lparr>fd_name = ''name'', fd_type = NamedType ''String''\<rparr>]\<rparr>"

definition sampleRoleEnum :: enum_type_definition where
  "sampleRoleEnum = \<lparr>etd_name = ''Role'', etd_values = [''ADMIN'', ''USER'']\<rparr>"

definition sampleUserInput :: input_object_type_definition where
  "sampleUserInput =
     \<lparr>iotd_name = ''UserInput'',
      iotd_fields = [\<lparr>fd_name = ''name'', fd_type = NonNullType (NamedType ''String'')\<rparr>]\<rparr>"

definition sampleSchemaAST :: "definition_node list" where
  "sampleSchemaAST =
     [ObjectTypeDefinitionNode sampleQueryType, ObjectTypeDefinitionNode sampleUserType,
      EnumTypeDefinitionNode sampleRoleEnum, InputObjectTypeDefinitionNode sampleUserInput]"

definition sampleGetType :: "string \<rightharpoonup> schema_type" where
  "sampleGetType =
     map_of [(''String'', \<lparr>st_name = ''String'', st_kind = ScalarType\<rparr>),
             (''Int'', \<lparr>st_name = ''Int'', st_kind = ScalarType\<rparr>),
             (''Date'', \<lparr>st_name = ''Date'', st_kind = ScalarType\<rparr>),
             (''Query'', \<lparr>st_name = ''Query'', st_kind = ObjectType\<rparr>),
             (''User'', \<lparr>st_name = ''User'', st_kind = ObjectType\<rparr>),
             (''Role'', \<lparr>st_name = ''Role'', st_kind = EnumType\<rparr>),
             (''UserInput'', \<lparr>st_name = ''UserInput'', st_kind = InputObjectType\<rparr>)]"

definition sampleScalars :: "string \<rightharpoonup> string" where
  "sampleScalars = map_of [(''String'', ''string''), (''Int'', ''int'')]"

definition sampleRawConfig :: raw_config where
  "sampleRawConfig =
     \<lparr>raw_namespaceName = None, raw_operationsClassName = None, raw_typesafeOperation = None,
      raw_httpClientConfig = None, raw_documentMode = None, raw_externalFragments = None\<rparr>"

text \<open>The query \<^verbatim>\<open>query findUser($id: Int!) { user { id name } }\<close>.\<close>

definition sampleOperation :: operation_definition where
  "sampleOperation =
     \<lparr>op_name = Some ''findUser'', op_operation = ''query'',
      op_variableDefinitions = Some [\<lparr>vd_name = ''id'', vd_type = NonNullType (NamedType ''Int'')\<rparr>],
      op_selections = [Field ''user'' (Some [Field ''id'' None, Field ''name'' None])]\<rparr>"

text \<open>
  The same query with an input-typed variable:
  \<^verbatim>\<open>query findUser($input: UserInput!) { user { id name } }\<close>.
\<close>

definition sampleInputOperation :: operation_definition where
  "sampleInputOperation =
     sampleOperation\<lparr>op_variableDefinitions :=
       Some [\<lparr>vd_name = ''input'', vd_type = NonNullType (NamedType ''UserInput'')\<rparr>]\<rparr>"

definition sampleVisitor :: visitor where
  "sampleVisitor =
     pluginVisitor sampleGetType sampleSchemaAST sampleScalars
       [[OperationDefinitionNode sampleOperation]] sampleRawConfig"

section \<open>Properties: the concrete instance\<close>

lemma sample_getType_String:
  "getType sampleVisitor ''String'' = Some \<lparr>st_name = ''String'', st_kind = ScalarType\<rparr>"
  by (simp add: sampleVisitor_def pluginVisitor_def newVisitor_def sampleGetType_def)

lemma sample_getType_Date:
  "getType sampleVisitor ''Date'' = Some \<lparr>st_name = ''Date'', st_kind = ScalarType\<rparr>"
  by (simp add: sampleVisitor_def pluginVisitor_def newVisitor_def sampleGetType_def)

lemma sample_scalarMapping_String: "scalarMapping sampleVisitor ''String'' = Some ''string''"
  by (simp add: scalarMapping_def sampleVisitor_def pluginVisitor_def newVisitor_def sampleScalars_def)

lemma sample_scalarMapping_Date: "scalarMapping sampleVisitor ''Date'' = None"
  by (simp add: scalarMapping_def sampleVisitor_def pluginVisitor_def newVisitor_def sampleScalars_def)

section \<open>Properties: the type resolver\<close>

lemma forceOptional_idem: "forceOptional (forceOptional r) = forceOptional r"
  by (cases r) (auto simp: forceOptional_def split: option.splits list_type_field.splits)

lemma resolveFieldType_default:
  "resolveFieldType h v t True = map_sum id forceOptional (resolveFieldType h v t False)"
  by (simp add: resolveFieldType_def Let_def split: sum.splits)

lemma resolveFieldType_plain:
  "resolveFieldType h v t False = Inr r \<Longrightarrow>
     listType r = getListTypeField t \<and>
     bt_required (baseType r) = isNonNullType (getListInnerTypeNode t)"
  by (auto simp: resolveFieldType_def resolveBaseType_def Let_def
           split: sum.splits option.splits if_splits)

text \<open>
  C4. A type reference whose base type is a scalar of the schema always resolves, with or
  without the default-value flag and whatever wrappers it has. When the scalar has a
  mapping (one that JavaScript reads as true: present and not the empty string), the base
  type is the mapped native type and its value-type flag is what \<^verbatim>\<open>isValueType\<close> says
  of the mapped type; when it has none, the base type is \<^verbatim>\<open>object\<close> and is not a value
  type. No error is raised in either case.
\<close>

theorem resolveFieldType_scalar:
  assumes "getType v (getBaseTypeNode t) = Some st" and "st_kind st = ScalarType"
  shows "\<exists>r. resolveFieldType h v t d = Inr r \<and>
           (case scalarMapping v (st_name st) of
              Some m \<Rightarrow> bt_type (baseType r) = m \<and> bt_valueType (baseType r) = isValueType h m
            | None \<Rightarrow> bt_type (baseType r) = ''object'' \<and> \<not> bt_valueType (baseType r))"
proof (cases "scalarMapping v (st_name st)")
  case None
  with assms show ?thesis
    by (auto simp: resolveFieldType_def resolveBaseType_def forceOptional_def Let_def
             split: list_type_field.splits option.splits)
next
  case (Some m)
  with assms show ?thesis
    by (auto simp: resolveFieldType_def resolveBaseType_def forceOptional_def Let_def
             split: list_type_field.splits option.splits)
qed

text \<open>
  The theorem at the mapped scalar \<^verbatim>\<open>String\<close> (as \<^verbatim>\<open>String!\<close>) and at the unmapped scalar
  \<^verbatim>\<open>Date\<close> (as \<^verbatim>\<open>[Date]\<close>, with the default-value flag).
\<close>

theorem resolveFieldType_scalar_witness:
  "getType sampleVisitor (getBaseTypeNode (NonNullType (NamedType ''String''))) =
     Some \<lparr>st_name = ''String'', st_kind = ScalarType\<rparr> \<and>
   scalarMapping sampleVisitor ''String'' = Some ''string'' \<and>
   (\<exists>r. resolveFieldType sampleHelpers sampleVisitor (NonNullType (NamedType ''String'')) False = Inr r \<and>
        bt_type (baseType r) = ''string'' \<and>
        bt_valueType (baseType r) = isValueType sampleHelpers ''string'') \<and>
   getType sampleVisitor (getBaseTypeNode (ListType (NamedType ''Date''))) =
     Some \<lparr>st_name = ''Date'', st_kind = ScalarType\<rparr> \<and>
   scalarMapping sampleVisitor ''Date'' = None \<and>
   (\<exists>r. resolveFieldType sampleHelpers sampleVisitor (ListType (NamedType ''Date'')) True = Inr r \<and>
        bt_type (baseType r) = ''object'' \<and> \<not> bt_valueType (baseType r))"
  using resolveFieldType_scalar [of sampleVisitor "NonNullType (NamedType ''String'')"
      "\<lparr>st_name = ''String'', st_kind = ScalarType\<rparr>" sampleHelpers False]
    resolveFieldType_scalar [of sampleVisitor "ListType (NamedType ''Date'')"
      "\<lparr>st_name = ''Date'', st_kind = ScalarType\<rparr>" sampleHelpers True]
  by (simp add: sample_getType_String sample_scalarMapping_String
        sample_getType_Date sample_scalarMapping_Date)

text \<open>
  C3, as the code has it. With the default-value flag the resolver clears one
  requiredness only, the outermost: the list wrapper's when the reference is a list, the
  base element's otherwise. Under a list wrapper the base element keeps the requiredness
  the schema declares (the innermost non-null wrapper). The result is the flagless
  result with that one override, and the override applied again changes nothing; the
  resolver is a function of its arguments, so resolving again gives the same descriptor.
\<close>

theorem resolveFieldType_default_outermost:
  assumes "resolveFieldType h v t True = Inr r"
  shows "(case listType r of
            Some lt \<Rightarrow> \<not> lt_required lt \<and>
                       bt_required (baseType r) = isNonNullType (getListInnerTypeNode t)
          | None \<Rightarrow> \<not> bt_required (baseType r)) \<and>
         forceOptional r = r \<and>
         (\<exists>r'. resolveFieldType h v t False = Inr r' \<and> r = forceOptional r')"
proof -
  from assms obtain r' where r': "resolveFieldType h v t False = Inr r'" and r: "r = forceOptional r'"
    by (cases "resolveFieldType h v t False") (auto simp: resolveFieldType_default)
  from resolveFieldType_plain [OF r'] have
    "bt_required (baseType r') = isNonNullType (getListInnerTypeNode t)" by simp
  then have "case listType r of
            Some lt \<Rightarrow> \<not> lt_required lt \<and>
                       bt_required (baseType r) = isNonNullType (getListInnerTypeNode t)
          | None \<Rightarrow> \<not> bt_required (baseType r)"
    unfolding r by (cases r') (auto simp: forceOptional_def split: option.splits list_type_field.splits)
  moreover have "forceOptional r = r" unfolding r by (rule forceOptional_idem)
  ultimately show ?thesis using r' r by blast
qed

text \<open>The theorem at \<^verbatim>\<open>[String!]!\<close>.\<close>

theorem resolveFieldType_default_outermost_witness:
  "resolveFieldType sampleHelpers sampleVisitor
     (NonNullType (ListType (NonNullType (NamedType ''String'')))) True =
   Inr \<lparr>baseType = \<lparr>bt_type = ''string'', bt_required = True, bt_valueType = False\<rparr>,
        listType = Some (ListTypeField False None)\<rparr> \<and>
   forceOptional \<lparr>baseType = \<lparr>bt_type = ''string'', bt_required = True, bt_valueType = False\<rparr>,
        listType = Some (ListTypeField False None)\<rparr> =
     \<lparr>baseType = \<lparr>bt_type = ''string'', bt_required = True, bt_valueType = False\<rparr>,
        listType = Some (ListTypeField False None)\<rparr>"
proof -
  have h: "resolveFieldType sampleHelpers sampleVisitor
     (NonNullType (ListType (NonNullType (NamedType ''String'')))) True =
   Inr \<lparr>baseType = \<lparr>bt_type = ''string'', bt_required = True, bt_valueType = False\<rparr>,
        listType = Some (ListTypeField False None)\<rparr>"
    by (simp add: resolveFieldType_def resolveBaseType_def forceOptional_def Let_def
        sample_getType_String sample_scalarMapping_String sampleHelpers_def)
  from resolveFieldType_default_outermost [OF h] show ?thesis using h by blast
qed

text \<open>
  C3 as stated fails: \<^verbatim>\<open>[String!]!\<close> resolved with the default-value flag keeps a
  required base element under its (now optional) list wrapper.
\<close>

theorem resolveFieldType_default_counterexample:
  "resolveFieldType sampleHelpers sampleVisitor
     (NonNullType (ListType (NonNullType (NamedType ''String'')))) True =
   Inr \<lparr>baseType = \<lparr>bt_type = ''string'', bt_required = True, bt_valueType = False\<rparr>,
        listType = Some (ListTypeField False None)\<rparr>"
  by (simp add: resolveFieldType_def resolveBaseType_def forceOptional_def Let_def
        sample_getType_String sample_scalarMapping_String sampleHelpers_def)

section \<open>Properties: root types and anonymous operations\<close>

lemma findObjectType_None_iff:
  "findObjectType p ds = None \<longleftrightarrow> \<not> (\<exists>d. ObjectTypeDefinitionNode d \<in> set ds \<and> p (otd_name d))"
  by (induction p ds rule: findObjectType.induct) auto

lemma sample_schemaAST: "schemaAST sampleVisitor = sampleSchemaAST"
  by (simp add: sampleVisitor_def pluginVisitor_def newVisitor_def)

text \<open>
  C10. For an operation definition without a name (no name node, or a name whose value is
  empty) the handler \<^verbatim>\<open>OperationDefinition\<close> returns \<^verbatim>\<open>null\<close>: it raises no error, emits
  no text, and leaves the visitor as it was, so the operation is not among the collected
  operations.
\<close>

theorem OperationDefinition_anonymous:
  assumes "anonymous node"
  shows "OperationDefinition h v n node = (Some (Inr None), v)"
  using assms by (simp add: OperationDefinition_def)

text \<open>The theorem at the sample query with its name removed.\<close>

theorem OperationDefinition_anonymous_witness:
  "anonymous (sampleOperation\<lparr>op_name := None\<rparr>) \<and>
   OperationDefinition sampleHelpers sampleVisitor 3 (sampleOperation\<lparr>op_name := None\<rparr>) =
     (Some (Inr None), sampleVisitor) \<and>
   collectedOperations (snd (OperationDefinition sampleHelpers sampleVisitor 3
     (sampleOperation\<lparr>op_name := None\<rparr>))) = []"
proof -
  have a: "anonymous (sampleOperation\<lparr>op_name := None\<rparr>)"
    by (simp add: anonymous_def)
  have c: "collectedOperations sampleVisitor = []"
    by (simp add: sampleVisitor_def pluginVisitor_def newVisitor_def)
  from OperationDefinition_anonymous [OF a, of sampleHelpers sampleVisitor 3] a c
  show ?thesis by simp
qed

text \<open>
  C9. When no object type definition of the schema has a name whose lower-cased form is
  the operation's kind, the root-type lookup yields nothing. \<^verbatim>\<open>getResponseClass\<close> does
  not test that: the field-definition step, given the absent parent, fails at
  \<^verbatim>\<open>parentSchema.fields\<close> with the engine's TypeError, and so does \<^verbatim>\<open>getResponseClass\<close>
  as soon as its first top-level selection is a field. \<^verbatim>\<open>getOperationConcreteMethod\<close>
  tests the same lookup and throws \<^verbatim>\<open>Operation schema not found\<close> with the kind.
\<close>

theorem getResponseClass_unguarded:
  assumes "\<not> (\<exists>d. ObjectTypeDefinitionNode d \<in> set (schemaAST v) \<and>
                 toLowerCase (otd_name d) = op_operation node)"
  shows "operationSchemaOf v node = None \<and>
         getFieldDefinition h v (Suc n) nm sub (operationSchemaOf v node) =
           Some (Inl (TypeError ''parentSchema.fields'')) \<and>
         (op_selections node = Field nm sub # rest \<longrightarrow>
            getResponseClass h v (Suc n) node = Some (Inl (TypeError ''parentSchema.fields''))) \<and>
         getOperationConcreteMethod h v node =
           Inl (Error (''Operation schema not found; '' @ op_operation node))"
proof -
  from assms have none: "operationSchemaOf v node = None"
    by (simp add: operationSchemaOf_def findObjectType_None_iff)
  then show ?thesis
    by (simp add: getResponseClass_def getOperationConcreteMethod_def)
qed

text \<open>
  The theorem at the sample operation turned into a subscription: the sample schema has
  no type named \<^verbatim>\<open>Subscription\<close>.
\<close>

theorem getResponseClass_unguarded_witness:
  "\<not> (\<exists>d. ObjectTypeDefinitionNode d \<in> set (schemaAST sampleVisitor) \<and>
          toLowerCase (otd_name d) = op_operation (sampleOperation\<lparr>op_operation := ''subscription''\<rparr>)) \<and>
   op_selections (sampleOperation\<lparr>op_operation := ''subscription''\<rparr>) =
     [Field ''user'' (Some [Field ''id'' None, Field ''name'' None])] \<and>
   getResponseClass sampleHelpers sampleVisitor (Suc 0) (sampleOperation\<lparr>op_operation := ''subscription''\<rparr>) =
     Some (Inl (TypeError ''parentSchema.fields'')) \<and>
   getOperationConcreteMethod sampleHelpers sampleVisitor (sampleOperation\<lparr>op_operation := ''subscription''\<rparr>) =
     Inl (Error ''Operation schema not found; subscription'')"
proof -
  have a: "\<not> (\<exists>d. ObjectTypeDefinitionNode d \<in> set (schemaAST sampleVisitor) \<and>
          toLowerCase (otd_name d) = op_operation (sampleOperation\<lparr>op_operation := ''subscription''\<rparr>))"
    by (auto simp: sample_schemaAST sampleSchemaAST_def sampleQueryType_def sampleUserType_def
          toLowerCase_def toLowerChar_def)
  have s: "op_selections (sampleOperation\<lparr>op_operation := ''subscription''\<rparr>) =
     [Field ''user'' (Some [Field ''id'' None, Field ''name'' None])]"
    by (simp add: sampleOperation_def)
  from getResponseClass_unguarded [OF a, of sampleHelpers 0 "''user''"
      "Some [Field ''id'' None, Field ''name'' None]" "[]"] a s
  show ?thesis by simp
qed

section \<open>Properties: the selection compiler\<close>

lemma collect_Inr:
  "collect rs = Some (Inr xs) \<Longrightarrow> rs = map (\<lambda>x. Some (Inr x)) xs"
proof (induction rs arbitrary: xs rule: collect.induct)
  case (4 x rs)
  then show ?case by (auto split: option.splits sum.splits)
qed auto

lemma collect_not_success:
  assumes "x \<in> set xs" and "f x = Some (Inl e)"
  shows "collect (map f xs) \<noteq> Some (Inr ys)"
proof
  assume "collect (map f xs) = Some (Inr ys)"
  then have "map f xs = map (\<lambda>x. Some (Inr x)) ys" by (rule collect_Inr)
  then have "\<forall>r \<in> set (map f xs). \<exists>y. r = Some (Inr y)" by auto
  with assms show False by force
qed

lemma collect_first_error:
  assumes "list_all (\<lambda>s. \<exists>t. f s = Some (Inr t)) pre" and "f x = Some (Inl e)"
  shows "collect (map f (pre @ x # post)) = Some (Inl e)"
  using assms by (induction pre) auto

lemma fieldCallback:
  "(\<lambda>s. case s of
         Field nm sub \<Rightarrow> getFieldDefinition h v n nm sub inner
       | FragmentSpread f \<Rightarrow> getFragmentSpreadDefinition h v n f inner
       | InlineFragment sub \<Rightarrow> Some (Inl unsupportedKind)) = compileSelection h v n inner"
  by (rule ext) (simp add: compileSelection_def split: selection.splits)

text \<open>The two recursive functions, one step unfolded, with the callback by name.\<close>

lemma getFieldDefinition_Suc:
  "getFieldDefinition h v (Suc n) name selectionSet parentSchema =
     (case parentSchema of
        None \<Rightarrow> Some (Inl (TypeError ''parentSchema.fields''))
      | Some parent \<Rightarrow>
          (case find (\<lambda>f. fd_name f = name) (otd_fields parent) of
             None \<Rightarrow> Some (Inl (Error (''Field schema not found; '' @ name)))
           | Some fieldSchema \<Rightarrow>
               (case resolveFieldType h v (fd_type fieldSchema) False of
                  Inl e \<Rightarrow> Some (Inl e)
                | Inr responseType \<Rightarrow>
                    (case selectionSet of
                       None \<Rightarrow> Some (Inr (leafFieldText h name responseType))
                     | Some selections \<Rightarrow>
                         (case soleFragmentSpread selections of
                            Some fragmentName \<Rightarrow>
                              Some (Inr (spreadFieldText h name fragmentName responseType))
                          | None \<Rightarrow>
                              (case collect (map (compileSelection h v n
                                       (findObjectType (\<lambda>n. n = bt_type (baseType responseType)) (schemaAST v)))
                                     selections) of
                                 None \<Rightarrow> None
                               | Some (Inl e) \<Rightarrow> Some (Inl e)
                               | Some (Inr selectionFields) \<Rightarrow>
                                   Some (Inr (nestedFieldText h name responseType
                                                (join nl selectionFields)))))))))"
  by (simp add: Let_def fieldCallback split: option.splits sum.splits)

lemma getFragmentSpreadDefinition_Suc:
  "getFragmentSpreadDefinition h v (Suc n) name parentSchema =
     (case find (\<lambda>f. lf_name f = name) (fragments v) of
        None \<Rightarrow> Some (Inl (Error (''Fragment schema not found; '' @ name)))
      | Some fragmentSchema \<Rightarrow>
          (case collect (map (compileSelection h v n parentSchema)
                        (fr_selections (lf_node fragmentSchema))) of
             None \<Rightarrow> None
           | Some (Inl e) \<Rightarrow> Some (Inl e)
           | Some (Inr parts) \<Rightarrow> Some (Inr (join nl parts))))"
  by (simp add: fieldCallback split: option.splits sum.splits)

lemma soleFragmentSpread_Some_iff: "soleFragmentSpread sels = Some f \<longleftrightarrow> sels = [FragmentSpread f]"
  by (induction sels rule: soleFragmentSpread.induct) auto

lemma soleFragmentSpread_inline:
  "InlineFragment sub \<in> set sels \<Longrightarrow> soleFragmentSpread sels = None"
  by (cases "soleFragmentSpread sels") (auto simp: soleFragmentSpread_Some_iff)

lemma compileSelection_inline [simp]:
  "compileSelection h v n inner (InlineFragment sub) = Some (Inl unsupportedKind)"
  by (simp add: compileSelection_def)

lemma soleFragmentSpread_inline_mid [simp]:
  "soleFragmentSpread (pre @ InlineFragment sub # post) = None"
  by (rule soleFragmentSpread_inline [of sub]) simp

lemma collect_compile_inline:
  "InlineFragment sub \<in> set sels \<Longrightarrow>
     collect (map (compileSelection h v n inner) sels) \<noteq> Some (Inr ys)"
  by (rule collect_not_success [where x = "InlineFragment sub"]) simp_all

lemma collect_topLevel_inline:
  "InlineFragment sub \<in> set sels \<Longrightarrow>
     collect (map (topLevelSelection h v n schemaDef) sels) \<noteq> Some (Inr ys)"
  by (rule collect_not_success [where x = "InlineFragment sub"]) simp_all

lemma field_inline_never:
  assumes "InlineFragment sub \<in> set sels"
  shows "getFieldDefinition h v n name (Some sels) parent \<noteq> Some (Inr out)"
proof (cases n)
  case 0
  then show ?thesis by simp
next
  case (Suc m)
  show ?thesis
    unfolding Suc getFieldDefinition_Suc
    using collect_compile_inline [OF assms]
    by (auto simp: soleFragmentSpread_inline [OF assms] split: option.splits sum.splits)
qed

lemma spread_inline_never:
  assumes "find (\<lambda>f. lf_name f = fname) (fragments v) = Some fr"
    and "InlineFragment sub \<in> set (fr_selections (lf_node fr))"
  shows "getFragmentSpreadDefinition h v n fname parent \<noteq> Some (Inr out)"
proof (cases n)
  case 0
  then show ?thesis by simp
next
  case (Suc m)
  show ?thesis
    unfolding Suc getFragmentSpreadDefinition_Suc
    using collect_compile_inline [OF assms(2)]
    by (auto simp: assms(1) split: option.splits sum.splits)
qed

lemma topLevel_inline [simp]:
  "topLevelSelection h v n schemaDef (InlineFragment sub) =
     Some (Inl (Error ''Unknown kind; InlineFragment in OperationDefinitionNode''))"
  by simp

lemma response_inline_never:
  assumes "InlineFragment sub \<in> set (op_selections node)"
  shows "getResponseClass h v n node \<noteq> Some (Inr out)"
  unfolding getResponseClass_def Let_def
  using collect_topLevel_inline [OF assms]
  by (auto split: option.splits sum.splits)

lemma fragmentClass_inline_never:
  assumes "InlineFragment sub \<in> set (fr_selections node)"
  shows "getFragmentClass h v n node \<noteq> Some (Inr out)"
  unfolding getFragmentClass_def Let_def
  using collect_topLevel_inline [OF assms]
  by (auto split: option.splits sum.splits)

lemma field_inline_reached:
  assumes "find (\<lambda>f. fd_name f = name) (otd_fields parent) = Some fieldSchema"
    and "resolveFieldType h v (fd_type fieldSchema) False = Inr responseType"
    and "list_all (\<lambda>s. \<exists>t. compileSelection h v n
            (findObjectType (\<lambda>n. n = bt_type (baseType responseType)) (schemaAST v)) s = Some (Inr t)) pre"
  shows "getFieldDefinition h v (Suc n) name (Some (pre @ InlineFragment sub # post)) (Some parent) =
           Some (Inl unsupportedKind)"
  unfolding getFieldDefinition_Suc
  using collect_first_error [OF assms(3) compileSelection_inline, of sub post]
  by (simp add: assms(1,2))

lemma spread_inline_reached:
  assumes "find (\<lambda>f. lf_name f = fname) (fragments v) = Some fr"
    and "fr_selections (lf_node fr) = pre @ InlineFragment sub # post"
    and "list_all (\<lambda>s. \<exists>t. compileSelection h v n parent s = Some (Inr t)) pre"
  shows "getFragmentSpreadDefinition h v (Suc n) fname parent = Some (Inl unsupportedKind)"
  unfolding getFragmentSpreadDefinition_Suc
  using collect_first_error [OF assms(3) compileSelection_inline, of sub post]
  by (simp add: assms(1,2))

lemma response_inline_reached:
  assumes "op_selections node = pre @ InlineFragment sub # post"
    and "list_all (\<lambda>s. \<exists>t. topLevelSelection h v n (operationSchemaOf v node) s = Some (Inr t)) pre"
  shows "getResponseClass h v n node =
           Some (Inl (Error ''Unknown kind; InlineFragment in OperationDefinitionNode''))"
  unfolding getResponseClass_def Let_def
  using collect_first_error [OF assms(2) topLevel_inline, of sub post]
  by (simp add: assms(1))

lemma fragmentClass_inline_reached:
  assumes "fr_selections node = pre @ InlineFragment sub # post"
    and "list_all (\<lambda>s. \<exists>t. topLevelSelection h v n
           (findObjectType (\<lambda>nm. nm = fr_typeCondition node) (schemaAST v)) s = Some (Inr t)) pre"
  shows "getFragmentClass h v n node =
           Some (Inl (Error ''Unknown kind; InlineFragment in OperationDefinitionNode''))"
  unfolding getFragmentClass_def Let_def
  using collect_first_error [OF assms(2) topLevel_inline, of sub post]
  by (simp add: assms(1))


text \<open>
  C7. A selection set that holds an inline fragment never compiles: not as the
  sub-selections of a field, not as the selections of a fragment that a spread inlines,
  not as the top-level selections of an operation or of a fragment. With any fuel the
  result is never a text. When the selections before the inline fragment compile, so
  that the inline fragment is reached, the error is the one that names the kind:
  \<^verbatim>\<open>Unsupported kind; [object Object] InlineFragment\<close> inside a field or an inlined
  fragment (the template prints the name node, hence \<^verbatim>\<open>[object Object]\<close>), and
  \<^verbatim>\<open>Unknown kind; InlineFragment in OperationDefinitionNode\<close> at the top level. When an
  earlier selection fails, its error ends the compilation first.
\<close>

theorem inline_fragment_unsupported:
  assumes "sels = pre @ InlineFragment sub # post"
  shows
    "getFieldDefinition h v n name (Some sels) parent \<noteq> Some (Inr out) \<and>
     (find (\<lambda>f. lf_name f = fname) (fragments v) = Some fr \<and> fr_selections (lf_node fr) = sels \<longrightarrow>
        getFragmentSpreadDefinition h v n fname parent \<noteq> Some (Inr out)) \<and>
     (op_selections node = sels \<longrightarrow> getResponseClass h v n node \<noteq> Some (Inr out)) \<and>
     (fr_selections fnode = sels \<longrightarrow> getFragmentClass h v n fnode \<noteq> Some (Inr out)) \<and>
     (find (\<lambda>f. fd_name f = name) (otd_fields p) = Some fieldSchema \<and>
      resolveFieldType h v (fd_type fieldSchema) False = Inr responseType \<and>
      list_all (\<lambda>s. \<exists>t. compileSelection h v n
         (findObjectType (\<lambda>n. n = bt_type (baseType responseType)) (schemaAST v)) s = Some (Inr t)) pre \<longrightarrow>
        getFieldDefinition h v (Suc n) name (Some sels) (Some p) =
          Some (Inl (Error ''Unsupported kind; [object Object] InlineFragment''))) \<and>
     (find (\<lambda>f. lf_name f = fname) (fragments v) = Some fr \<and> fr_selections (lf_node fr) = sels \<and>
      list_all (\<lambda>s. \<exists>t. compileSelection h v n parent s = Some (Inr t)) pre \<longrightarrow>
        getFragmentSpreadDefinition h v (Suc n) fname parent =
          Some (Inl (Error ''Unsupported kind; [object Object] InlineFragment''))) \<and>
     (op_selections node = sels \<and>
      list_all (\<lambda>s. \<exists>t. topLevelSelection h v n (operationSchemaOf v node) s = Some (Inr t)) pre \<longrightarrow>
        getResponseClass h v n node =
          Some (Inl (Error ''Unknown kind; InlineFragment in OperationDefinitionNode''))) \<and>
     (fr_selections fnode = sels \<and>
      list_all (\<lambda>s. \<exists>t. topLevelSelection h v n
         (findObjectType (\<lambda>nm. nm = fr_typeCondition fnode) (schemaAST v)) s = Some (Inr t)) pre \<longrightarrow>
        getFragmentClass h v n fnode =
          Some (Inl (Error ''Unknown kind; InlineFragment in OperationDefinitionNode'')))"
proof -
  have mem: "InlineFragment sub \<in> set sels" using assms by simp
  have 1: "getFieldDefinition h v n name (Some sels) parent \<noteq> Some (Inr out)"
    by (rule field_inline_never [OF mem])
  have 2: "find (\<lambda>f. lf_name f = fname) (fragments v) = Some fr \<and> fr_selections (lf_node fr) = sels \<longrightarrow>
        getFragmentSpreadDefinition h v n fname parent \<noteq> Some (Inr out)"
    using spread_inline_never [of fname v fr sub] mem by blast
  have 3: "op_selections node = sels \<longrightarrow> getResponseClass h v n node \<noteq> Some (Inr out)"
    using response_inline_never [of sub node] mem by blast
  have 4: "fr_selections fnode = sels \<longrightarrow> getFragmentClass h v n fnode \<noteq> Some (Inr out)"
    using fragmentClass_inline_never [of sub fnode] mem by blast
  have 5: "find (\<lambda>f. fd_name f = name) (otd_fields p) = Some fieldSchema \<and>
      resolveFieldType h v (fd_type fieldSchema) False = Inr responseType \<and>
      list_all (\<lambda>s. \<exists>t. compileSelection h v n
         (findObjectType (\<lambda>n. n = bt_type (baseType responseType)) (schemaAST v)) s = Some (Inr t)) pre \<longrightarrow>
        getFieldDefinition h v (Suc n) name (Some sels) (Some p) =
          Some (Inl (Error ''Unsupported kind; [object Object] InlineFragment''))"
    using field_inline_reached [of name p fieldSchema h v responseType n pre sub post]
    by (simp add: assms unsupportedKind_def)
  have 6: "find (\<lambda>f. lf_name f = fname) (fragments v) = Some fr \<and> fr_selections (lf_node fr) = sels \<and>
      list_all (\<lambda>s. \<exists>t. compileSelection h v n parent s = Some (Inr t)) pre \<longrightarrow>
        getFragmentSpreadDefinition h v (Suc n) fname parent =
          Some (Inl (Error ''Unsupported kind; [object Object] InlineFragment''))"
    using spread_inline_reached [of fname v fr pre sub post h n parent]
    by (simp add: assms unsupportedKind_def)
  have 7: "op_selections node = sels \<and>
      list_all (\<lambda>s. \<exists>t. topLevelSelection h v n (operationSchemaOf v node) s = Some (Inr t)) pre \<longrightarrow>
        getResponseClass h v n node =
          Some (Inl (Error ''Unknown kind; InlineFragment in OperationDefinitionNode''))"
    using response_inline_reached [of node pre sub post h v n] by (simp add: assms)
  have 8: "fr_selections fnode = sels \<and>
      list_all (\<lambda>s. \<exists>t. topLevelSelection h v n
         (findObjectType (\<lambda>nm. nm = fr_typeCondition fnode) (schemaAST v)) s = Some (Inr t)) pre \<longrightarrow>
        getFragmentClass h v n fnode =
          Some (Inl (Error ''Unknown kind; InlineFragment in OperationDefinitionNode''))"
    using fragmentClass_inline_reached [of fnode pre sub post h v n] by (simp add: assms)
  from 1 2 3 4 5 6 7 8 show ?thesis by blast
qed

text \<open>
  The theorem at \<^verbatim>\<open>user { id ... on User { name } }\<close> against the sample \<^verbatim>\<open>Query\<close>
  type, and at an operation with these top-level selections.
\<close>

theorem inline_fragment_unsupported_witness:
  "find (\<lambda>f. fd_name f = ''user'') (otd_fields sampleQueryType) =
     Some \<lparr>fd_name = ''user'', fd_type = NamedType ''User''\<rparr> \<and>
   resolveFieldType sampleHelpers sampleVisitor (NamedType ''User'') False =
     Inr \<lparr>baseType = \<lparr>bt_type = ''User'', bt_required = False, bt_valueType = False\<rparr>,
          listType = None\<rparr> \<and>
   compileSelection sampleHelpers sampleVisitor (Suc 0)
     (findObjectType (\<lambda>n. n = ''User'') (schemaAST sampleVisitor)) (Field ''id'' None) =
     Some (Inr ''  [JsonProperty(\"id\")]\<newline>  public int Id { get; set; }\<newline>  '') \<and>
   getFieldDefinition sampleHelpers sampleVisitor (Suc (Suc 0)) ''user''
     (Some [Field ''id'' None, InlineFragment [Field ''name'' None]]) (Some sampleQueryType) =
     Some (Inl (Error ''Unsupported kind; [object Object] InlineFragment'')) \<and>
   getResponseClass sampleHelpers sampleVisitor (Suc 0)
     (sampleOperation\<lparr>op_selections := [Field ''id'' None, InlineFragment [Field ''name'' None]]\<rparr>) \<noteq>
     Some (Inr [])"
proof -
  have f: "find (\<lambda>f. fd_name f = ''user'') (otd_fields sampleQueryType) =
     Some \<lparr>fd_name = ''user'', fd_type = NamedType ''User''\<rparr>"
    by code_simp
  have r: "resolveFieldType sampleHelpers sampleVisitor
       (fd_type \<lparr>fd_name = ''user'', fd_type = NamedType ''User''\<rparr>) False =
     Inr \<lparr>baseType = \<lparr>bt_type = ''User'', bt_required = False, bt_valueType = False\<rparr>,
          listType = None\<rparr>"
    by code_simp
  have c: "compileSelection sampleHelpers sampleVisitor (Suc 0)
     (findObjectType (\<lambda>n. n = ''User'') (schemaAST sampleVisitor)) (Field ''id'' None) =
     Some (Inr ''  [JsonProperty(\"id\")]\<newline>  public int Id { get; set; }\<newline>  '')"
    by code_simp
  have s: "op_selections (sampleOperation\<lparr>op_selections := [Field ''id'' None, InlineFragment [Field ''name'' None]]\<rparr>) =
     [Field ''id'' None, InlineFragment [Field ''name'' None]]"
    by simp
  note T = inline_fragment_unsupported [where sels = "[Field ''id'' None, InlineFragment [Field ''name'' None]]"
      and pre = "[Field ''id'' None]" and sub = "[Field ''name'' None]" and post = "[]"
      and h = sampleHelpers and v = sampleVisitor and n = "Suc 0" and name = "''user''"
      and parent = "Some sampleQueryType" and out = "[]"
      and node = "sampleOperation\<lparr>op_selections := [Field ''id'' None, InlineFragment [Field ''name'' None]]\<rparr>"
      and p = sampleQueryType and fieldSchema = "\<lparr>fd_name = ''user'', fd_type = NamedType ''User''\<rparr>"
      and responseType = "\<lparr>baseType = \<lparr>bt_type = ''User'', bt_required = False, bt_valueType = False\<rparr>, listType = None\<rparr>"]
  from T f r c have a: "getFieldDefinition sampleHelpers sampleVisitor (Suc (Suc 0)) ''user''
     (Some [Field ''id'' None, InlineFragment [Field ''name'' None]]) (Some sampleQueryType) =
     Some (Inl (Error ''Unsupported kind; [object Object] InlineFragment''))"
    by simp
  from T s have b: "getResponseClass sampleHelpers sampleVisitor (Suc 0)
     (sampleOperation\<lparr>op_selections := [Field ''id'' None, InlineFragment [Field ''name'' None]]\<rparr>) \<noteq>
     Some (Inr [])"
    by simp
  from f r c a b show ?thesis by simp
qed




lemma innerTypeName_selectionType:
  "innerTypeName (selectionType h name rt) = resultClassName h name rt"
  by (simp add: innerTypeName_def selectionType_def)

text \<open>
  C2. Whenever a field with a selection set compiles, the parent type lists the field and
  its type resolves, and the text has one of two shapes. When the selection set is
  exactly one fragment spread, the text is one property and no class: its type is the
  fragment's class name (the converted fragment name), as \<^verbatim>\<open>List<...>\<close> with an
  \<^verbatim>\<open>s\<close> appended to the property name when the field resolves to a list. For every
  other selection set the text is a class followed by a property: the class is named by
  the pascal-cased field name, without its trailing \<^verbatim>\<open>s\<close> when the field is list-valued,
  with \<^verbatim>\<open>Result\<close> appended (and the reserved-name escape applied); its body is the
  compiled sub-selections; the property is named \<^verbatim>\<open>Result\<close> and its type is that class
  name, with one \<^verbatim>\<open>List<...>\<close> per list level and no nullable mark.
\<close>

theorem field_shapes:
  assumes "getFieldDefinition h v n name (Some sels) parent = Some (Inr out)"
  shows "\<exists>p fieldSchema rt.
           parent = Some p \<and>
           find (\<lambda>f. fd_name f = name) (otd_fields p) = Some fieldSchema \<and>
           resolveFieldType h v (fd_type fieldSchema) False = Inr rt \<and>
           (\<forall>f. sels = [FragmentSpread f] \<longrightarrow>
              out = propertyText h name
                (if listType rt \<noteq> None then ''List<'' @ convertName h (Some f) @ ''>''
                 else convertName h (Some f))
                (if listType rt \<noteq> None then convertName h (Some f) @ ''s''
                 else convertName h (Some f))) \<and>
           ((\<forall>f. sels \<noteq> [FragmentSpread f]) \<longrightarrow>
              (\<exists>m parts.
                 n = Suc m \<and>
                 collect (map (compileSelection h v m
                    (findObjectType (\<lambda>n. n = bt_type (baseType rt)) (schemaAST v))) sels) =
                   Some (Inr parts) \<and>
                 out = indentMultiline h
                   (join nl
                      [blockString h \<lparr>db_access = Some ''public'', db_kind = ''class'',
                         db_name = Some (resultClassName h name rt), db_implements = [],
                         db_block = join nl parts\<rparr>,
                       jsonProperty name,
                       ''public '' @
                       wrapFieldType (selectionType h name rt) (listType rt) ''List'' @
                       '' Result { get; set; }''] @ nl) 1)) \<and>
           resultClassName h name rt =
             convertSafeName h
               ((if listType rt \<noteq> None \<and> endsWithS (pascalCase h name)
                 then butlast (pascalCase h name) else pascalCase h name) @ ''Result'') \<and>
           innerTypeName (selectionType h name rt) = resultClassName h name rt \<and>
           (listType rt = None \<longrightarrow>
              wrapFieldType (selectionType h name rt) (listType rt) ''List'' =
                resultClassName h name rt) \<and>
           (\<forall>r. listType rt = Some (ListTypeField r None) \<longrightarrow>
              wrapFieldType (selectionType h name rt) (listType rt) ''List'' =
                ''List<'' @ resultClassName h name rt @ ''>'')"
proof (cases n)
  case 0
  with assms show ?thesis by simp
next
  case (Suc m)
  from assms obtain p where p: "parent = Some p"
    unfolding Suc getFieldDefinition_Suc by (cases parent) auto
  from assms obtain fieldSchema where
    f: "find (\<lambda>f. fd_name f = name) (otd_fields p) = Some fieldSchema"
    unfolding Suc getFieldDefinition_Suc p
    by (cases "find (\<lambda>f. fd_name f = name) (otd_fields p)") auto
  from assms obtain rt where r: "resolveFieldType h v (fd_type fieldSchema) False = Inr rt"
    unfolding Suc getFieldDefinition_Suc p
    by (cases "resolveFieldType h v (fd_type fieldSchema) False") (auto simp: f)
  from assms have body:
    "(case soleFragmentSpread sels of
        Some fragmentName \<Rightarrow> Some (Inr (spreadFieldText h name fragmentName rt))
      | None \<Rightarrow>
          (case collect (map (compileSelection h v m
                  (findObjectType (\<lambda>n. n = bt_type (baseType rt)) (schemaAST v))) sels) of
             None \<Rightarrow> None
           | Some (Inl e) \<Rightarrow> Some (Inl e)
           | Some (Inr selectionFields) \<Rightarrow>
               Some (Inr (nestedFieldText h name rt (join nl selectionFields))))) = Some (Inr out)"
    unfolding Suc getFieldDefinition_Suc p by (simp add: f r)
  have a: "\<forall>f. sels = [FragmentSpread f] \<longrightarrow>
              out = propertyText h name
                (if listType rt \<noteq> None then ''List<'' @ convertName h (Some f) @ ''>''
                 else convertName h (Some f))
                (if listType rt \<noteq> None then convertName h (Some f) @ ''s''
                 else convertName h (Some f))"
    using body by (auto simp: spreadFieldText_def getFragmentClassName_def Let_def)
  have b: "(\<forall>f. sels \<noteq> [FragmentSpread f]) \<longrightarrow>
              (\<exists>m parts.
                 n = Suc m \<and>
                 collect (map (compileSelection h v m
                    (findObjectType (\<lambda>n. n = bt_type (baseType rt)) (schemaAST v))) sels) =
                   Some (Inr parts) \<and>
                 out = indentMultiline h
                   (join nl
                      [blockString h \<lparr>db_access = Some ''public'', db_kind = ''class'',
                         db_name = Some (resultClassName h name rt), db_implements = [],
                         db_block = join nl parts\<rparr>,
                       jsonProperty name,
                       ''public '' @
                       wrapFieldType (selectionType h name rt) (listType rt) ''List'' @
                       '' Result { get; set; }''] @ nl) 1)"
  proof
    assume "\<forall>f. sels \<noteq> [FragmentSpread f]"
    then have sole: "soleFragmentSpread sels = None"
      by (cases "soleFragmentSpread sels") (auto simp: soleFragmentSpread_Some_iff)
    from body obtain parts where
      c: "collect (map (compileSelection h v m
            (findObjectType (\<lambda>n. n = bt_type (baseType rt)) (schemaAST v))) sels) = Some (Inr parts)"
      and o: "out = nestedFieldText h name rt (join nl parts)"
      unfolding sole by (auto split: option.splits sum.splits)
    from Suc c o show "\<exists>m parts.
                 n = Suc m \<and>
                 collect (map (compileSelection h v m
                    (findObjectType (\<lambda>n. n = bt_type (baseType rt)) (schemaAST v))) sels) =
                   Some (Inr parts) \<and>
                 out = indentMultiline h
                   (join nl
                      [blockString h \<lparr>db_access = Some ''public'', db_kind = ''class'',
                         db_name = Some (resultClassName h name rt), db_implements = [],
                         db_block = join nl parts\<rparr>,
                       jsonProperty name,
                       ''public '' @
                       wrapFieldType (selectionType h name rt) (listType rt) ''List'' @
                       '' Result { get; set; }''] @ nl) 1"
      by (auto simp: nestedFieldText_def Let_def)
  qed
  have c: "resultClassName h name rt =
             convertSafeName h
               ((if listType rt \<noteq> None \<and> endsWithS (pascalCase h name)
                 then butlast (pascalCase h name) else pascalCase h name) @ ''Result'')"
    by (simp add: resultClassName_def Let_def)
  have d: "listType rt = None \<longrightarrow>
              wrapFieldType (selectionType h name rt) (listType rt) ''List'' =
                resultClassName h name rt"
    by (simp add: innerTypeName_selectionType)
  have e: "\<forall>r. listType rt = Some (ListTypeField r None) \<longrightarrow>
              wrapFieldType (selectionType h name rt) (listType rt) ''List'' =
                ''List<'' @ resultClassName h name rt @ ''>''"
    by (simp add: innerTypeName_selectionType)
  show ?thesis
    by (rule exI [of _ p], rule exI [of _ fieldSchema], rule exI [of _ rt])
       (intro conjI p f r a b c d e innerTypeName_selectionType)
qed

text \<open>
  The theorem at \<^verbatim>\<open>users { ...UserParts }\<close> and at \<^verbatim>\<open>users { id }\<close>, where
  \<^verbatim>\<open>users: [User!]!\<close>.
\<close>

theorem field_shapes_witness:
  "getFieldDefinition sampleHelpers sampleVisitor (Suc 0) ''users''
     (Some [FragmentSpread ''UserParts'']) (Some sampleQueryType) =
     Some (Inr ''  [JsonProperty(\"users\")]\<newline>  public List<UserParts> UserPartss { get; set; }\<newline>  '') \<and>
   (\<exists>rt. resolveFieldType sampleHelpers sampleVisitor
            (NonNullType (ListType (NonNullType (NamedType ''User'')))) False = Inr rt \<and>
         ''  [JsonProperty(\"users\")]\<newline>  public List<UserParts> UserPartss { get; set; }\<newline>  '' =
           propertyText sampleHelpers ''users''
             (if listType rt \<noteq> None then ''List<'' @ convertName sampleHelpers (Some ''UserParts'') @ ''>''
              else convertName sampleHelpers (Some ''UserParts''))
             (if listType rt \<noteq> None then convertName sampleHelpers (Some ''UserParts'') @ ''s''
              else convertName sampleHelpers (Some ''UserParts''))) \<and>
   getFieldDefinition sampleHelpers sampleVisitor (Suc (Suc 0)) ''users''
     (Some [Field ''id'' None]) (Some sampleQueryType) =
     Some (Inr ''  public class UserResult {\<newline>    [JsonProperty(\"id\")]\<newline>    public int Id { get; set; }\<newline>    \<newline>  }\<newline>  \<newline>  [JsonProperty(\"users\")]\<newline>  public List<UserResult> Result { get; set; }\<newline>  '') \<and>
   (\<exists>rt. resolveFieldType sampleHelpers sampleVisitor
            (NonNullType (ListType (NonNullType (NamedType ''User'')))) False = Inr rt \<and>
         resultClassName sampleHelpers ''users'' rt =
           convertSafeName sampleHelpers
             ((if listType rt \<noteq> None \<and> endsWithS (pascalCase sampleHelpers ''users'')
               then butlast (pascalCase sampleHelpers ''users'') else pascalCase sampleHelpers ''users'') @
              ''Result''))"
proof -
  have F: "find (\<lambda>f. fd_name f = ''users'') (otd_fields sampleQueryType) =
      Some \<lparr>fd_name = ''users'', fd_type = NonNullType (ListType (NonNullType (NamedType ''User'')))\<rparr>"
    by code_simp
  have e1: "getFieldDefinition sampleHelpers sampleVisitor (Suc 0) ''users''
     (Some [FragmentSpread ''UserParts'']) (Some sampleQueryType) =
     Some (Inr ''  [JsonProperty(\"users\")]\<newline>  public List<UserParts> UserPartss { get; set; }\<newline>  '')"
    by code_simp
  have e2: "getFieldDefinition sampleHelpers sampleVisitor (Suc (Suc 0)) ''users''
     (Some [Field ''id'' None]) (Some sampleQueryType) =
     Some (Inr ''  public class UserResult {\<newline>    [JsonProperty(\"id\")]\<newline>    public int Id { get; set; }\<newline>    \<newline>  }\<newline>  \<newline>  [JsonProperty(\"users\")]\<newline>  public List<UserResult> Result { get; set; }\<newline>  '')"
    by code_simp
  from field_shapes [OF e1] obtain p fieldSchema rt where
    p: "Some sampleQueryType = Some p"
    and f: "find (\<lambda>f. fd_name f = ''users'') (otd_fields p) = Some fieldSchema"
    and r: "resolveFieldType sampleHelpers sampleVisitor (fd_type fieldSchema) False = Inr rt"
    and a: "\<forall>f. [FragmentSpread ''UserParts''] = [FragmentSpread f] \<longrightarrow>
         ''  [JsonProperty(\"users\")]\<newline>  public List<UserParts> UserPartss { get; set; }\<newline>  '' =
           propertyText sampleHelpers ''users''
             (if listType rt \<noteq> None then ''List<'' @ convertName sampleHelpers (Some f) @ ''>''
              else convertName sampleHelpers (Some f))
             (if listType rt \<noteq> None then convertName sampleHelpers (Some f) @ ''s''
              else convertName sampleHelpers (Some f))"
    by blast
  from p f F have fs: "fd_type fieldSchema = NonNullType (ListType (NonNullType (NamedType ''User'')))"
    by auto
  from a have a': "''  [JsonProperty(\"users\")]\<newline>  public List<UserParts> UserPartss { get; set; }\<newline>  '' =
           propertyText sampleHelpers ''users''
             (if listType rt \<noteq> None then ''List<'' @ convertName sampleHelpers (Some ''UserParts'') @ ''>''
              else convertName sampleHelpers (Some ''UserParts''))
             (if listType rt \<noteq> None then convertName sampleHelpers (Some ''UserParts'') @ ''s''
              else convertName sampleHelpers (Some ''UserParts''))"
    by blast
  from r fs a' have w1: "\<exists>rt. resolveFieldType sampleHelpers sampleVisitor
            (NonNullType (ListType (NonNullType (NamedType ''User'')))) False = Inr rt \<and>
         ''  [JsonProperty(\"users\")]\<newline>  public List<UserParts> UserPartss { get; set; }\<newline>  '' =
           propertyText sampleHelpers ''users''
             (if listType rt \<noteq> None then ''List<'' @ convertName sampleHelpers (Some ''UserParts'') @ ''>''
              else convertName sampleHelpers (Some ''UserParts''))
             (if listType rt \<noteq> None then convertName sampleHelpers (Some ''UserParts'') @ ''s''
              else convertName sampleHelpers (Some ''UserParts''))"
    by metis
  from field_shapes [OF e2] obtain p' fieldSchema' rt' where
    p': "Some sampleQueryType = Some p'"
    and f': "find (\<lambda>f. fd_name f = ''users'') (otd_fields p') = Some fieldSchema'"
    and r': "resolveFieldType sampleHelpers sampleVisitor (fd_type fieldSchema') False = Inr rt'"
    and c': "resultClassName sampleHelpers ''users'' rt' =
           convertSafeName sampleHelpers
             ((if listType rt' \<noteq> None \<and> endsWithS (pascalCase sampleHelpers ''users'')
               then butlast (pascalCase sampleHelpers ''users'') else pascalCase sampleHelpers ''users'') @
              ''Result'')"
    by blast
  from p' f' F have fs': "fd_type fieldSchema' = NonNullType (ListType (NonNullType (NamedType ''User'')))"
    by auto
  from r' fs' c' have w2: "\<exists>rt. resolveFieldType sampleHelpers sampleVisitor
            (NonNullType (ListType (NonNullType (NamedType ''User'')))) False = Inr rt \<and>
         resultClassName sampleHelpers ''users'' rt =
           convertSafeName sampleHelpers
             ((if listType rt \<noteq> None \<and> endsWithS (pascalCase sampleHelpers ''users'')
               then butlast (pascalCase sampleHelpers ''users'') else pascalCase sampleHelpers ''users'') @
              ''Result'')"
    by metis
  from e1 w1 e2 w2 show ?thesis by (intro conjI)
qed

section \<open>Properties: the request class\<close>

lemma requestField_Inr:
  "requestField h v var = Inr f \<longleftrightarrow>
     (\<exists>t. resolveFieldType h v (vd_type var) False = Inr t) \<and> f = requestProperty h v var"
  by (auto simp: requestField_def requestProperty_def variableTypeName_def split: sum.splits)

lemma requestFields_Inr:
  "collectE (map (requestField h v) vs) = Inr fs \<Longrightarrow>
     list_all (\<lambda>var. \<exists>t. resolveFieldType h v (vd_type var) False = Inr t) vs \<and>
     fs = map (requestProperty h v) vs"
proof (induction vs arbitrary: fs)
  case Nil
  then show ?case by simp
next
  case (Cons var vs)
  then show ?case
    by (cases "requestField h v var"; cases "collectE (map (requestField h v) vs)")
       (auto simp: requestField_Inr)
qed

lemma requestFields_total:
  "list_all (\<lambda>var. \<exists>t. resolveFieldType h v (vd_type var) False = Inr t) vs \<Longrightarrow>
     collectE (map (requestField h v) vs) = Inr (map (requestProperty h v) vs)"
proof (induction vs)
  case Nil
  then show ?case by simp
next
  case (Cons var vs)
  then have "requestField h v var = Inr (requestProperty h v var)"
    by (auto simp: requestField_Inr)
  with Cons show ?case by simp
qed

lemma constructorParamsLoop_join:
  "list_all (\<lambda>var. \<exists>t. resolveFieldType h v (vd_type var) False = Inr t) vs \<Longrightarrow>
     constructorParamsLoop h v vs acc = Inr (acc @ join '', '' (map (constructorParameter h v) vs))"
proof (induction vs arbitrary: acc)
  case Nil
  then show ?case by simp
next
  case (Cons var vs)
  then obtain t where t: "resolveFieldType h v (vd_type var) False = Inr t" by auto
  from Cons have rest: "list_all (\<lambda>var. \<exists>t. resolveFieldType h v (vd_type var) False = Inr t) vs"
    by simp
  have p: "constructorParameter h v var =
      wrapFieldType t (listType t) ''List'' @ '' '' @ convertSafeName h (vd_name var)"
    by (simp add: constructorParameter_def variableTypeName_def t)
  show ?case
  proof (cases vs)
    case Nil
    then show ?thesis by (simp add: t p Let_def)
  next
    case (Cons w ws)
    with Cons.IH [OF rest] show ?thesis
      by (simp add: t p Let_def)
  qed
qed

lemma constructorBodyLoop_concat:
  "constructorBodyLoop h vs acc = acc @ concat (map (constructorAssignment h) vs)"
  by (induction vs arbitrary: acc) (simp_all add: constructorAssignment_def Let_def)

lemma getRequestClass_shape:
  assumes "op_variableDefinitions node = Some vs" and "vs \<noteq> []"
    and "list_all (\<lambda>var. \<exists>t. resolveFieldType h v (vd_type var) False = Inr t) vs"
  shows "getRequestClass h v node = Inr (requestClassShape h v node vs)"
proof -
  from assms(2) obtain v0 vs' where vs: "vs = v0 # vs'" by (cases vs) auto
  show ?thesis
    using requestFields_total [OF assms(3)] constructorParamsLoop_join [OF assms(3), of "[]"]
    by (simp add: getRequestClass_def assms(1) vs requestClassShape_def
          constructorBodyLoop_concat Let_def
        del: constructorParamsLoop.simps constructorBodyLoop.simps collectE.simps join.simps)
qed

lemma getRequestClass_Inr_resolves:
  assumes "op_variableDefinitions node = Some vs" and "vs \<noteq> []"
    and "getRequestClass h v node = Inr out"
  shows "list_all (\<lambda>var. \<exists>t. resolveFieldType h v (vd_type var) False = Inr t) vs"
proof -
  from assms(2) obtain v0 vs' where vs: "vs = v0 # vs'" by (cases vs) auto
  from assms(3) obtain fs where "collectE (map (requestField h v) vs) = Inr fs"
    by (cases "collectE (map (requestField h v) vs)")
       (auto simp: getRequestClass_def assms(1) vs simp del: collectE.simps)
  from requestFields_Inr [OF this] show ?thesis by simp
qed

text \<open>
  C5. An operation without variables (none declared, or an empty list) gets no request
  class: the result is the empty text. For an operation with one or more variables the
  method returns exactly when every variable's type resolves, and what it returns is the
  class of \<^const>\<open>requestClassShape\<close>: one property per variable, whose tag is the
  variable's own name; one constructor whose parameters are the variables in declaration
  order, as many as there are variables, each a type and the (escaped) variable name;
  and a body with one assignment per variable, of the parameter to the pascal-cased
  property.
\<close>

theorem getRequestClass_spec:
  "(\<not> hasVariables node \<longrightarrow> getRequestClass h v node = Inr []) \<and>
   (op_variableDefinitions node = Some vs \<and> vs \<noteq> [] \<and>
    list_all (\<lambda>var. \<exists>t. resolveFieldType h v (vd_type var) False = Inr t) vs \<longrightarrow>
      getRequestClass h v node = Inr (requestClassShape h v node vs)) \<and>
   (op_variableDefinitions node = Some vs \<and> vs \<noteq> [] \<and> getRequestClass h v node = Inr out \<longrightarrow>
      out = requestClassShape h v node vs \<and>
      length (map (constructorParameter h v) vs) = length vs \<and>
      (\<forall>i < length vs.
         map (requestProperty h v) vs ! i =
           propertyText h (vd_name (vs ! i)) (variableTypeName h v (vs ! i))
             (convertSafeName h (pascalCase h (vd_name (vs ! i)))) \<and>
         map (constructorParameter h v) vs ! i =
           variableTypeName h v (vs ! i) @ '' '' @ convertSafeName h (vd_name (vs ! i)) \<and>
         map (constructorAssignment h) vs ! i =
           nl @ ''  '' @ convertSafeName h (pascalCase h (vd_name (vs ! i))) @ '' = '' @
           convertSafeName h (vd_name (vs ! i)) @ '';''))"
proof -
  have 1: "\<not> hasVariables node \<longrightarrow> getRequestClass h v node = Inr []"
    by (auto simp: hasVariables_def getRequestClass_def split: option.splits list.splits)
  have 2: "op_variableDefinitions node = Some vs \<and> vs \<noteq> [] \<and>
    list_all (\<lambda>var. \<exists>t. resolveFieldType h v (vd_type var) False = Inr t) vs \<longrightarrow>
      getRequestClass h v node = Inr (requestClassShape h v node vs)"
    using getRequestClass_shape by blast
  have 3: "op_variableDefinitions node = Some vs \<and> vs \<noteq> [] \<and> getRequestClass h v node = Inr out \<longrightarrow>
      out = requestClassShape h v node vs"
    using getRequestClass_shape [of node vs h v] getRequestClass_Inr_resolves [of node vs h v out]
    by auto
  have 4: "\<forall>i < length vs.
         map (requestProperty h v) vs ! i =
           propertyText h (vd_name (vs ! i)) (variableTypeName h v (vs ! i))
             (convertSafeName h (pascalCase h (vd_name (vs ! i)))) \<and>
         map (constructorParameter h v) vs ! i =
           variableTypeName h v (vs ! i) @ '' '' @ convertSafeName h (vd_name (vs ! i)) \<and>
         map (constructorAssignment h) vs ! i =
           nl @ ''  '' @ convertSafeName h (pascalCase h (vd_name (vs ! i))) @ '' = '' @
           convertSafeName h (vd_name (vs ! i)) @ '';''"
    by (simp add: requestProperty_def constructorParameter_def constructorAssignment_def)
  have 5: "length (map (constructorParameter h v) vs) = length vs" by simp
  from 1 2 3 4 5 show ?thesis by blast
qed


text \<open>
  The theorem at the sample query \<^verbatim>\<open>findUser($id: Int!)\<close>, and at the same query
  without variables.
\<close>

theorem getRequestClass_spec_witness:
  "\<not> hasVariables (sampleOperation\<lparr>op_variableDefinitions := Some []\<rparr>) \<and>
   getRequestClass sampleHelpers sampleVisitor (sampleOperation\<lparr>op_variableDefinitions := Some []\<rparr>) = Inr [] \<and>
   op_variableDefinitions sampleOperation =
     Some [\<lparr>vd_name = ''id'', vd_type = NonNullType (NamedType ''Int'')\<rparr>] \<and>
   getRequestClass sampleHelpers sampleVisitor sampleOperation =
     Inr ''public class FindUserRequest {\<newline>\<newline>  [JsonProperty(\"id\")]\<newline>  public int Id { get; set; }\<newline>  \<newline>public FindUserRequest(int id) {\<newline>  Id = id;\<newline>}\<newline>}\<newline>'' \<and>
   ''public class FindUserRequest {\<newline>\<newline>  [JsonProperty(\"id\")]\<newline>  public int Id { get; set; }\<newline>  \<newline>public FindUserRequest(int id) {\<newline>  Id = id;\<newline>}\<newline>}\<newline>'' =
     requestClassShape sampleHelpers sampleVisitor sampleOperation
       [\<lparr>vd_name = ''id'', vd_type = NonNullType (NamedType ''Int'')\<rparr>]"
proof -
  have a: "\<not> hasVariables (sampleOperation\<lparr>op_variableDefinitions := Some []\<rparr>)"
    by (simp add: hasVariables_def)
  have b: "op_variableDefinitions sampleOperation =
     Some [\<lparr>vd_name = ''id'', vd_type = NonNullType (NamedType ''Int'')\<rparr>]"
    by (simp add: sampleOperation_def)
  have c: "getRequestClass sampleHelpers sampleVisitor sampleOperation =
     Inr ''public class FindUserRequest {\<newline>\<newline>  [JsonProperty(\"id\")]\<newline>  public int Id { get; set; }\<newline>  \<newline>public FindUserRequest(int id) {\<newline>  Id = id;\<newline>}\<newline>}\<newline>''"
    by code_simp
  note T = getRequestClass_spec [where h = sampleHelpers and v = sampleVisitor]
  from T [where node = "sampleOperation\<lparr>op_variableDefinitions := Some []\<rparr>"] a
  have d: "getRequestClass sampleHelpers sampleVisitor
      (sampleOperation\<lparr>op_variableDefinitions := Some []\<rparr>) = Inr []"
    by blast
  from T [where node = sampleOperation
      and vs = "[\<lparr>vd_name = ''id'', vd_type = NonNullType (NamedType ''Int'')\<rparr>]"
      and out = "''public class FindUserRequest {\<newline>\<newline>  [JsonProperty(\"id\")]\<newline>  public int Id { get; set; }\<newline>  \<newline>public FindUserRequest(int id) {\<newline>  Id = id;\<newline>}\<newline>}\<newline>''"] b c
  have e: "''public class FindUserRequest {\<newline>\<newline>  [JsonProperty(\"id\")]\<newline>  public int Id { get; set; }\<newline>  \<newline>public FindUserRequest(int id) {\<newline>  Id = id;\<newline>}\<newline>}\<newline>'' =
     requestClassShape sampleHelpers sampleVisitor sampleOperation
       [\<lparr>vd_name = ''id'', vd_type = NonNullType (NamedType ''Int'')\<rparr>]"
    by blast
  from a b c d e show ?thesis by (intro conjI)
qed

section \<open>Properties: the typesafe flag\<close>

text \<open>
  C1 does not hold of the plugin entry. The run below is the plugin's over the sample
  schema and the query \<^verbatim>\<open>findUser($input: UserInput!)\<close>, with the configuration's
  defaults, where the typesafe flag is off. The request buffer holds the request class,
  the response buffer the response class and the enum buffer the enum declaration, although
  the flag is off; the input buffer holds a line break only, so the class \<^verbatim>\<open>UserInput\<close>
  that the request class names is not emitted.
\<close>

theorem plugin_typesafe_off_run:
  "typesafeOperation (config
     (pluginVisitor sampleGetType sampleSchemaAST sampleScalars
        [[OperationDefinitionNode sampleInputOperation]] sampleRawConfig)) = False \<and>
   map_option (map_sum id requestDefinitions)
     (pluginBuffers sampleHelpers
        (pluginVisitor sampleGetType sampleSchemaAST sampleScalars
           [[OperationDefinitionNode sampleInputOperation]] sampleRawConfig)
        (Suc (Suc (Suc 0)))
        (concat [[OperationDefinitionNode sampleInputOperation]] @ sampleSchemaAST)) =
     Some (Inr ''public class FindUserRequest {\<newline>\<newline>  [JsonProperty(\"input\")]\<newline>  public UserInput Input { get; set; }\<newline>  \<newline>public FindUserRequest(UserInput input) {\<newline>  Input = input;\<newline>}\<newline>}\<newline>\<newline>'') \<and>
   map_option (map_sum id responseDefinitions)
     (pluginBuffers sampleHelpers
        (pluginVisitor sampleGetType sampleSchemaAST sampleScalars
           [[OperationDefinitionNode sampleInputOperation]] sampleRawConfig)
        (Suc (Suc (Suc 0)))
        (concat [[OperationDefinitionNode sampleInputOperation]] @ sampleSchemaAST)) =
     Some (Inr ''public class FindUserPayload {\<newline>\<newline>  public class UserResult {\<newline>    [JsonProperty(\"id\")]\<newline>    public int Id { get; set; }\<newline>    \<newline>    [JsonProperty(\"name\")]\<newline>    public string Name { get; set; }\<newline>    \<newline>  }\<newline>  \<newline>  [JsonProperty(\"user\")]\<newline>  public UserResult Result { get; set; }\<newline>  \<newline>}\<newline>\<newline>'') \<and>
   map_option (map_sum id enumDefinitions)
     (pluginBuffers sampleHelpers
        (pluginVisitor sampleGetType sampleSchemaAST sampleScalars
           [[OperationDefinitionNode sampleInputOperation]] sampleRawConfig)
        (Suc (Suc (Suc 0)))
        (concat [[OperationDefinitionNode sampleInputOperation]] @ sampleSchemaAST)) =
     Some (Inr ''    public enum Role {\<newline>      ADMIN,\<newline>      USER\<newline>    }\<newline>    \<newline>'') \<and>
   map_option (map_sum id inputDefinitions)
     (pluginBuffers sampleHelpers
        (pluginVisitor sampleGetType sampleSchemaAST sampleScalars
           [[OperationDefinitionNode sampleInputOperation]] sampleRawConfig)
        (Suc (Suc (Suc 0)))
        (concat [[OperationDefinitionNode sampleInputOperation]] @ sampleSchemaAST)) =
     Some (Inr ''\<newline>'')"
  by code_simp

end
